theory Spec2Isabelle
  imports Complex_Main "HOL-Library.AList"
begin

section \<open>Data model\<close>

text \<open>
  Paths are kept as the tuple of parts that \<^verbatim>\<open>pathlib\<close> keeps for a POSIX path:
  an absolute path starts with the part \<^verbatim>\<open>/\<close>, so \<^verbatim>\<open>/a/b\<close> is \<open>[''/'', ''a'', ''b'']\<close>
  and the relative path \<^verbatim>\<open>a/b\<close> is \<open>[''a'', ''b'']\<close>.
\<close>

type_synonym path = "string list"

datatype error =
    TwisterConfigurationException string
  | ValueError
  | TypeError
  | AssertionError
  | OverflowError

subsection \<open>Python numbers\<close>

text \<open>
  A Python \<^verbatim>\<open>float\<close> is an IEEE 754 binary64 value: a finite value, kept as the rational
  it denotes, an infinity with its sign (\<open>Inf True\<close> is the positive one), or a NaN. The
  two zeros are not told apart: no operation used here depends on the sign of a zero.
  A Python \<^verbatim>\<open>int\<close> is unbounded.
\<close>

datatype pyfloat = Fin rat | Inf bool | NaN

datatype pynum = PyInt int | PyFloat pyfloat

text \<open>\<^verbatim>\<open>int.bit_length\<close> of a natural number.\<close>

fun bit_length :: "nat \<Rightarrow> nat" where
  "bit_length n = (if n = 0 then 0 else Suc (bit_length (n div 2)))"

declare bit_length.simps [simp del]

definition pow2 :: "int \<Rightarrow> rat" where
  "pow2 k = (if 0 \<le> k then 2 ^ nat k else 1 / 2 ^ nat (- k))"

text \<open>
  The exponent of a positive rational: the \<open>k\<close> with \<open>pow2 k \<le> x < pow2 (k + 1)\<close>.
  For \<open>x \<ge> 1\<close> it is that of the integer part; for \<open>x < 1\<close> it is minus the least
  \<open>k\<close> with \<open>1 / x \<le> pow2 k\<close>.
\<close>

definition floor_log2 :: "rat \<Rightarrow> int" where
  "floor_log2 x =
     (if 1 \<le> x then int (bit_length (nat \<lfloor>x\<rfloor>)) - 1
      else - int (bit_length (nat (\<lceil>1 / x\<rceil> - 1))))"

text \<open>Rounding to the nearest integer, a tie going to the even one.\<close>

definition round_half_even :: "rat \<Rightarrow> int" where
  "round_half_even q =
     (let f = \<lfloor>q\<rfloor>; r = q - of_int f
      in if r < 1 / 2 then f else if 1 / 2 < r then f + 1 else if even f then f else f + 1)"

text \<open>
  Rounding a rational to binary64, to nearest with ties to even: the significand has 53
  bits, so the spacing at \<open>x\<close> is \<open>pow2 (floor_log2 \<bar>x\<bar> - 52)\<close>, and not below
  \<open>pow2 (- 1074)\<close>, the spacing of the subnormal numbers; a result that reaches
  \<open>pow2 1024\<close> is an infinity.
\<close>

definition round_double :: "rat \<Rightarrow> pyfloat" where
  "round_double x =
     (if x = 0 then Fin 0
      else let a = \<bar>x\<bar>;
               e = max (floor_log2 a - 52) (- 1074);
               y = of_int (round_half_even (a / pow2 e)) * pow2 e
           in if pow2 1024 \<le> y then Inf (0 < x) else Fin (if 0 < x then y else - y))"

text \<open>
  The finite floats: an integer of less than 54 bits times a power of two between the
  spacing of the subnormal numbers and that of the largest ones.
\<close>

definition representable :: "rat \<Rightarrow> bool" where
  "representable x \<longleftrightarrow>
     (\<exists>n e. x = of_int n * pow2 e \<and> \<bar>n\<bar> < 2 ^ 53 \<and> - 1074 \<le> e \<and> e \<le> 971)"

text \<open>The product of two floats: the exact product, rounded once.\<close>

fun fmul :: "pyfloat \<Rightarrow> pyfloat \<Rightarrow> pyfloat" where
  "fmul NaN y = NaN"
| "fmul x NaN = NaN"
| "fmul (Inf s) (Inf t) = Inf (s = t)"
| "fmul (Inf s) (Fin y) = (if y = 0 then NaN else Inf (s = (0 < y)))"
| "fmul (Fin x) (Inf t) = (if x = 0 then NaN else Inf ((0 < x) = t))"
| "fmul (Fin x) (Fin y) = round_double (x * y)"

text \<open>
  The conversion of an \<^verbatim>\<open>int\<close> operand to \<^verbatim>\<open>float\<close>: correctly rounded, and
  \<^verbatim>\<open>OverflowError\<close> when the integer is too large for a float.
\<close>

definition int_to_float :: "int \<Rightarrow> error + pyfloat" where
  "int_to_float n =
     (case round_double (of_int n) of
        Inf s \<Rightarrow> Inl OverflowError
      | x \<Rightarrow> Inr x)"

text \<open>
  \<^verbatim>\<open>a * b\<close> on numbers: exact on two integers; when one operand is a float the other is
  converted to a float first.
\<close>

fun py_mul :: "pynum \<Rightarrow> pynum \<Rightarrow> error + pynum" where
  "py_mul (PyInt a) (PyInt b) = Inr (PyInt (a * b))"
| "py_mul (PyInt a) (PyFloat y) =
     (case int_to_float a of Inl e \<Rightarrow> Inl e | Inr x \<Rightarrow> Inr (PyFloat (fmul x y)))"
| "py_mul (PyFloat x) (PyInt b) =
     (case int_to_float b of Inl e \<Rightarrow> Inl e | Inr y \<Rightarrow> Inr (PyFloat (fmul x y)))"
| "py_mul (PyFloat x) (PyFloat y) = Inr (PyFloat (fmul x y))"

text \<open>
  \<^verbatim>\<open>math.ceil\<close>: an integer is returned as it is, a finite float gives its ceiling, an
  infinity raises \<^verbatim>\<open>OverflowError\<close> and a NaN raises \<^verbatim>\<open>ValueError\<close>.
\<close>

fun math_ceil :: "pynum \<Rightarrow> error + int" where
  "math_ceil (PyInt n) = Inr n"
| "math_ceil (PyFloat (Fin x)) = Inr \<lceil>x\<rceil>"
| "math_ceil (PyFloat (Inf s)) = Inl OverflowError"
| "math_ceil (PyFloat NaN) = Inl ValueError"

text \<open>The rational a number denotes, when it is finite.\<close>

fun value_of :: "pynum \<Rightarrow> rat option" where
  "value_of (PyInt n) = Some (of_int n)"
| "value_of (PyFloat (Fin x)) = Some x"
| "value_of (PyFloat v) = None"

subsection \<open>Dictionaries and the objects they are\<close>

text \<open>
  The values a loaded YAML document and the resolver put into a specification dictionary.
\<close>

datatype pyval =
    VStr string
  | VList "pyval list"
  | VInt int
  | VFloat pyfloat
  | VPath path

text \<open>
  A Python \<^verbatim>\<open>dict\<close> keeps insertion order: assigning to a key that is present replaces the
  value in place, assigning to a new key appends it. That is \<open>AList.update\<close>.
\<close>

type_synonym pydict = "(string \<times> pyval) list"

text \<open>
  A dictionary is an object: two names can be bound to the same one, and an assignment
  to a key through one name is seen through the other. A reference stands for the
  object, and the store gives the content of every object.
\<close>

type_synonym ref = nat

type_synonym store = "ref \<Rightarrow> pydict"

text \<open>\<^verbatim>\<open>d[key] = v\<close> for the dictionary object \<open>d\<close>.\<close>

definition setitem :: "store \<Rightarrow> ref \<Rightarrow> string \<Rightarrow> pyval \<Rightarrow> store" where
  "setitem h d key v = h(d := AList.update key v (h d))"

text \<open>
  A mapping from names to dictionary objects as it reads: every name with the content of
  its object. This is what \<^verbatim>\<open>==\<close> compares and what printing shows.
\<close>

definition contents :: "store \<Rightarrow> (string \<times> ref) list \<Rightarrow> (string \<times> pydict) list" where
  "contents h m = map (\<lambda>(test_name, d). (test_name, h d)) m"

subsection \<open>Specifications and platforms\<close>

text \<open>
  Modelled from the spec: the class \<^verbatim>\<open>YamlTestSpecification\<close>
  (\<^verbatim>\<open>twister2/yaml_test_specification.py\<close> is not among the sources). The fields are those
  the data model of the specification lists and the source reads; \<open>rel_to_base_path\<close>
  holds either a path or the string \<^verbatim>\<open>out_of_tree\<close>, so it is a \<open>pyval\<close>; \<open>timeout\<close>
  is a number.
\<close>

record yaml_test_specification =
  name :: string
  original_name :: string
  platform :: string
  build_name :: string
  source_dir :: path
  rel_to_base_path :: pyval
  timeout :: pynum
  arch_allow :: "string set"
  arch_exclude :: "string set"
  platform_allow :: "string set"
  platform_exclude :: "string set"
  platform_type :: "string set"
  min_ram :: int
  min_flash :: int
  toolchain_allow :: "string set"
  toolchain_exclude :: "string set"
  tags :: "string set"
  harness :: string
  filter' :: string

text \<open>
  Modelled from the spec: the class \<^verbatim>\<open>PlatformSpecification\<close>
  (\<^verbatim>\<open>twister2/platform_specification.py\<close> is not among the sources), with the attributes
  the source reads: \<^verbatim>\<open>platform.testing.timeout_multiplier\<close> is a nested attribute.
\<close>

record testing_specification =
  timeout_multiplier :: pynum

record platform_specification =
  "identifier" :: string
  arch :: string
  type' :: string
  ram :: int
  flash :: int
  toolchain :: "string list"
  only_tags :: "string list"
  ignore_tags :: "string list"
  testing :: testing_specification

section \<open>Eligibility predicates\<close>

text \<open>
  The logger \<^verbatim>\<open>testcases\<close> is modelled as the list of the records written to it, oldest
  first. A record holds the three arguments of the format string: the scenario's original
  name, the platform identifier and the reason.
\<close>

type_synonym skip_record = "string \<times> string \<times> string"

definition log_test_skip ::
  "yaml_test_specification \<Rightarrow> platform_specification \<Rightarrow> string \<Rightarrow> skip_record list" where
  "log_test_skip ts p reason = [(original_name ts, identifier p, reason)]"

text \<open>
  Every predicate returns its boolean together with the records it wrote. A Python set is
  true when it is not empty; \<^verbatim>\<open>a & b\<close> is the intersection.
\<close>

definition should_skip_for_toolchain ::
  "yaml_test_specification \<Rightarrow> platform_specification \<Rightarrow> bool \<times> skip_record list" where
  "should_skip_for_toolchain ts p =
     (if toolchain p = [] then (False, [])
      else if toolchain_allow ts \<noteq> {} \<and> toolchain_allow ts \<inter> set (toolchain p) = {}
        then (True, log_test_skip ts p ''platform.toolchain not in testcase.toolchain_allow'')
      else if toolchain_exclude ts \<noteq> {} \<and> toolchain_exclude ts \<inter> set (toolchain p) \<noteq> {}
        then (True, log_test_skip ts p ''platform.toolchain in testcase.toolchain_exclude'')
      else (False, []))"

definition should_skip_for_tag ::
  "yaml_test_specification \<Rightarrow> platform_specification \<Rightarrow> bool \<times> skip_record list" where
  "should_skip_for_tag ts p =
     (if only_tags p \<noteq> [] \<and> set (only_tags p) \<inter> tags ts = {}
        then (True, log_test_skip ts p ''testcase.tag not in platform.only_tags'')
      else if ignore_tags p \<noteq> [] \<and> set (ignore_tags p) \<inter> tags ts \<noteq> {}
        then (True, log_test_skip ts p ''testcase.tag in platform.ignore_tags'')
      else (False, []))"

definition should_skip_for_arch ::
  "yaml_test_specification \<Rightarrow> platform_specification \<Rightarrow> bool \<times> skip_record list" where
  "should_skip_for_arch ts p =
     (if arch_allow ts \<noteq> {} \<and> arch p \<notin> arch_allow ts
        then (True, log_test_skip ts p ''platform.arch not in testcase.arch_allow'')
      else if arch_exclude ts \<noteq> {} \<and> arch p \<in> arch_exclude ts
        then (True, log_test_skip ts p ''platform.arch in testcase.arch_exclude'')
      else (False, []))"

definition should_skip_for_platform ::
  "yaml_test_specification \<Rightarrow> platform_specification \<Rightarrow> bool \<times> skip_record list" where
  "should_skip_for_platform ts p =
     (if platform_allow ts \<noteq> {} \<and> identifier p \<notin> platform_allow ts
        then (True, log_test_skip ts p ''platform.identifier not in testcase.platform_allow'')
      else if platform_exclude ts \<noteq> {} \<and> identifier p \<in> platform_exclude ts
        then (True, log_test_skip ts p ''platform.identifier in testcase.platform_exclude'')
      else (False, []))"

definition should_skip_for_platform_type ::
  "yaml_test_specification \<Rightarrow> platform_specification \<Rightarrow> bool \<times> skip_record list" where
  "should_skip_for_platform_type ts p =
     (if platform_type ts \<noteq> {} \<and> type' p \<notin> platform_type ts
        then (True, log_test_skip ts p ''platform.type not in testcase.platform_type'')
      else (False, []))"

definition should_skip_for_min_ram ::
  "yaml_test_specification \<Rightarrow> platform_specification \<Rightarrow> bool \<times> skip_record list" where
  "should_skip_for_min_ram ts p =
     (if min_ram ts > ram p
        then (True, log_test_skip ts p ''platform.ram is less than testcase.min_ram'')
      else (False, []))"

definition should_skip_for_min_flash ::
  "yaml_test_specification \<Rightarrow> platform_specification \<Rightarrow> bool \<times> skip_record list" where
  "should_skip_for_min_flash ts p =
     (if min_flash ts > flash p
        then (True, log_test_skip ts p ''platform.flash is less than testcase.min_flash'')
      else (False, []))"

definition should_skip_for_pytest_harness ::
  "yaml_test_specification \<Rightarrow> platform_specification \<Rightarrow> bool \<times> skip_record list" where
  "should_skip_for_pytest_harness ts p =
     (if harness ts = ''pytest''
        then (True, log_test_skip ts p
                ''test harness \"pytest\" is natively supported by pytest'')
      else (False, []))"

text \<open>Python's \<^verbatim>\<open>any\<close> over a list that has already been built.\<close>

fun any :: "bool list \<Rightarrow> bool" where
  "any [] = False"
| "any (b # bs) = (if b then True else any bs)"

text \<open>
  \<^verbatim>\<open>should_be_skip\<close> builds the list of the eight results first, in the order of the
  source, and only then hands it to \<^verbatim>\<open>any\<close>: every predicate runs, and the records they
  write follow each other in that order.
\<close>

definition should_be_skip ::
  "yaml_test_specification \<Rightarrow> platform_specification \<Rightarrow> bool \<times> skip_record list" where
  "should_be_skip ts p =
     (let results =
        [should_skip_for_arch ts p,
         should_skip_for_min_flash ts p,
         should_skip_for_min_ram ts p,
         should_skip_for_platform ts p,
         should_skip_for_platform_type ts p,
         should_skip_for_pytest_harness ts p,
         should_skip_for_tag ts p,
         should_skip_for_toolchain ts p]
      in (if any (map fst results) then True else False, concat (map snd results)))"

section \<open>Paths and string joining\<close>

text \<open>\<^verbatim>\<open>sep.join(args)\<close> on strings.\<close>

fun join :: "string \<Rightarrow> string list \<Rightarrow> string" where
  "join sep [] = []"
| "join sep [x] = x"
| "join sep (x # y # zs) = x @ sep @ join sep (y # zs)"

definition is_absolute :: "path \<Rightarrow> bool" where
  "is_absolute pth = (case pth of [] \<Rightarrow> False | x # xs \<Rightarrow> x = ''/'')"

text \<open>\<^verbatim>\<open>str(path)\<close>: the parts joined by a slash, the root written once.\<close>

definition path_str :: "path \<Rightarrow> string" where
  "path_str pth =
     (case pth of
        [] \<Rightarrow> ''.''
      | x # xs \<Rightarrow> if x = ''/'' then ''/'' @ join ''/'' xs else join ''/'' pth)"

text \<open>
  \<^verbatim>\<open>Path.relative_to(path, other)\<close> compares the leading parts of \<open>pth\<close> with all the
  parts of \<open>other\<close> and raises \<^verbatim>\<open>ValueError\<close> when they differ (for an empty \<open>other\<close>:
  when \<open>pth\<close> is absolute); otherwise it returns the remaining parts.
\<close>

definition relative_to :: "path \<Rightarrow> path \<Rightarrow> error + path" where
  "relative_to pth other =
     (if (if other = [] then is_absolute pth else take (length other) pth \<noteq> other)
      then Inl ValueError
      else Inr (drop (length other) pth))"

section \<open>Merging the common block into the scenarios\<close>

fun is_str :: "pyval \<Rightarrow> bool" where
  "is_str (VStr s) = True"
| "is_str v = False"

fun is_list :: "pyval \<Rightarrow> bool" where
  "is_list (VList xs) = True"
| "is_list v = False"

fun str_of :: "pyval \<Rightarrow> string" where
  "str_of (VStr s) = s"
| "str_of v = []"

text \<open>
  \<^verbatim>\<open>_join_filters\<close>: the assertion first, then the test on the length of the list as it was
  passed, and only then the empty strings are dropped and every remaining one is wrapped.
\<close>

definition join_filters :: "pyval list \<Rightarrow> error + string" where
  "join_filters args =
     (if \<not> list_all is_str args then Inl AssertionError
      else if length args = 1 then Inr (str_of (hd args))
      else Inr (join '' and ''
                  (map (\<lambda>arg. ''('' @ arg @ '')'') (filter (\<lambda>arg. arg \<noteq> []) (map str_of args)))))"

definition join_strings :: "pyval list \<Rightarrow> error + string" where
  "join_strings args =
     (if \<not> list_all is_str args then Inl AssertionError
      else Inr (join '' '' (filter (\<lambda>arg. arg \<noteq> []) (map str_of args))))"

text \<open>
  One round of the inner loop of \<^verbatim>\<open>extract_tests\<close>: the entry \<open>(key, common_value)\<close> of the
  common block is merged into the scenario's dictionary \<open>d\<close>. Adding a list to a value that
  is not a list raises \<^verbatim>\<open>TypeError\<close>.
\<close>

definition merge_common_item :: "string \<times> pyval \<Rightarrow> pydict \<Rightarrow> error + pydict" where
  "merge_common_item kv d =
     (let key = fst kv; common_value = snd kv in
      case map_of d key of
        Some own \<Rightarrow>
          if key = ''filter'' then
            (case join_filters [own, common_value] of
               Inl e \<Rightarrow> Inl e
             | Inr s \<Rightarrow> Inr (AList.update key (VStr s) d))
          else if is_str common_value then
            (case join_strings [own, common_value] of
               Inl e \<Rightarrow> Inl e
             | Inr s \<Rightarrow> Inr (AList.update key (VStr s) d))
          else if is_list common_value then
            (case (own, common_value) of
               (VList xs, VList ys) \<Rightarrow> Inr (AList.update key (VList (xs @ ys)) d)
             | _ \<Rightarrow> Inl TypeError)
          else Inr d
      | None \<Rightarrow> Inr (AList.update key common_value d))"

text \<open>The inner loop over \<^verbatim>\<open>common.items()\<close>; an exception ends it.\<close>

fun merge_common :: "pydict \<Rightarrow> pydict \<Rightarrow> error + pydict" where
  "merge_common [] d = Inr d"
| "merge_common (kv # rest) d =
     (case merge_common_item kv d of Inl e \<Rightarrow> Inl e | Inr d' \<Rightarrow> merge_common rest d')"

text \<open>
  The loaded document: \<^verbatim>\<open>raw_spec.get('common', {})\<close> is the common block or the empty
  dictionary, \<^verbatim>\<open>raw_spec['tests']\<close> the scenarios in the order of the file, each with
  the dictionary object the loader made for it.
\<close>

record raw_specification =
  raw_common :: "pydict option"
  raw_tests :: "(string \<times> ref) list"

text \<open>
  The outer loop of \<^verbatim>\<open>extract_tests\<close>. The merge assigns into the scenario's own
  dictionary object, and \<^verbatim>\<open>tests[test_name] = test_spec_dict\<close> stores that very object:
  no copy is made. An exception leaves the loop and the function; the objects it had
  written to are then out of reach, so the store is not returned with it.
\<close>

fun extract_loop ::
  "pydict \<Rightarrow> (string \<times> ref) list \<Rightarrow> (string \<times> ref) list \<Rightarrow> store
     \<Rightarrow> error + (string \<times> ref) list \<times> store" where
  "extract_loop common [] acc h = Inr (acc, h)"
| "extract_loop common ((test_name, test_spec_dict) # rest) acc h =
     (case merge_common common (h test_spec_dict) of
        Inl e \<Rightarrow> Inl e
      | Inr d \<Rightarrow>
          extract_loop common rest (AList.update test_name test_spec_dict acc)
            (h(test_spec_dict := d)))"

text \<open>
  \<^verbatim>\<open>extract_tests\<close>. The validator \<^verbatim>\<open>validate_test_specification_data\<close> is not among the
  sources; it is the parameter \<open>validate\<close>, which returns the exception it raises, if any.
\<close>

definition extract_tests ::
  "(store \<Rightarrow> raw_specification \<Rightarrow> error option) \<Rightarrow> store \<Rightarrow> raw_specification
     \<Rightarrow> error + (string \<times> ref) list \<times> store" where
  "extract_tests validate h raw =
     (case validate h raw of
        Some e \<Rightarrow> Inl e
      | None \<Rightarrow>
          extract_loop (case raw_common raw of None \<Rightarrow> [] | Some c \<Rightarrow> c)
            (raw_tests raw) [] h)"

section \<open>The specification processors\<close>

text \<open>
  \<^verbatim>\<open>create_spec_from_dict\<close>. The constructor \<^verbatim>\<open>YamlTestSpecification(**test_spec_dict)\<close> is
  not among the sources; it is the parameter \<open>mk\<close>, applied to the content of the
  dictionary. The product is Python's, and so is \<^verbatim>\<open>math.ceil\<close>; an exception of either
  leaves the function.
\<close>

definition create_spec_from_dict ::
  "(pydict \<Rightarrow> error + yaml_test_specification) \<Rightarrow> pydict \<Rightarrow> platform_specification
     \<Rightarrow> error + yaml_test_specification" where
  "create_spec_from_dict mk test_spec_dict p =
     (case mk test_spec_dict of
        Inl e \<Rightarrow> Inl e
      | Inr test_spec \<Rightarrow>
          (case py_mul (timeout test_spec) (timeout_multiplier (testing p)) of
             Inl e \<Rightarrow> Inl e
           | Inr product \<Rightarrow>
               (case math_ceil product of
                  Inl e \<Rightarrow> Inl e
                | Inr n \<Rightarrow> Inr (test_spec\<lparr>timeout := PyInt n\<rparr>))))"

text \<open>
  The attributes both processors have. \<open>tests\<close> maps a scenario name to its dictionary
  object; \<open>raw_spec\<close> is the loaded document, whose scenarios are bound to dictionary
  objects as well.
\<close>

record specification_processor =
  spec_file_path :: path
  test_directory_path :: path
  raw_spec :: raw_specification
  tests :: "(string \<times> ref) list"

record yaml_specification_processor = specification_processor +
  zephyr_base :: path

text \<open>
  The message of the configuration error, the same f-string in both processors.
\<close>

definition no_specification_msg :: "string \<Rightarrow> path \<Rightarrow> string" where
  "no_specification_msg scenario file =
     ''There is no specification for '' @ scenario @ '' in file '' @ path_str file"

text \<open>
  \<^verbatim>\<open>YamlSpecificationProcessor.prepare_spec_dict\<close>. The name \<^verbatim>\<open>test_spec_dict\<close> is bound to
  the dictionary object stored in \<^verbatim>\<open>self.tests\<close>, not to a copy: every assignment to one
  of its keys is an assignment in that object, and the object is what the function
  returns. The function assigns to no attribute of \<^verbatim>\<open>self\<close>; what it changes is the
  store, which it returns with its result. \<^verbatim>\<open>test_spec_dict['source_dir']\<close> is read back
  right after it was assigned, so it is \<^verbatim>\<open>self.test_directory_path\<close>. Only
  \<^verbatim>\<open>ValueError\<close> is caught around the relativisation.
\<close>

definition yaml_prepare_spec_dict ::
  "store \<Rightarrow> yaml_specification_processor \<Rightarrow> platform_specification \<Rightarrow> string
     \<Rightarrow> (error + ref) \<times> store" where
  "yaml_prepare_spec_dict h self p scenario =
     (case map_of (tests self) scenario of
        None \<Rightarrow>
          (Inl (TwisterConfigurationException
                  (no_specification_msg scenario (spec_file_path self))), h)
      | Some test_spec_dict \<Rightarrow>
          (let h1 = setitem h test_spec_dict ''name''
                      (VStr (scenario @ ''['' @ identifier p @ '']''));
               h2 = setitem h1 test_spec_dict ''original_name'' (VStr scenario);
               h3 = setitem h2 test_spec_dict ''platform'' (VStr (identifier p));
               h4 = setitem h3 test_spec_dict ''source_dir'' (VPath (test_directory_path self))
           in case relative_to (test_directory_path self) (zephyr_base self) of
                Inr rel \<Rightarrow>
                  (Inr test_spec_dict,
                   setitem h4 test_spec_dict ''rel_to_base_path'' (VPath rel))
              | Inl ValueError \<Rightarrow>
                  (Inr test_spec_dict,
                   setitem h4 test_spec_dict ''rel_to_base_path'' (VStr ''out_of_tree''))
              | Inl e \<Rightarrow> (Inl e, h4)))"

text \<open>
  \<^verbatim>\<open>YamlSpecificationProcessor.process\<close> returns the specification, or \<^verbatim>\<open>None\<close> when it is
  to be skipped; the records written to the skip log and the store come with it.
\<close>

definition yaml_process ::
  "(pydict \<Rightarrow> error + yaml_test_specification) \<Rightarrow> store \<Rightarrow> yaml_specification_processor
     \<Rightarrow> platform_specification \<Rightarrow> string
     \<Rightarrow> (error + yaml_test_specification option) \<times> skip_record list \<times> store" where
  "yaml_process mk h self p scenario =
     (case yaml_prepare_spec_dict h self p scenario of
        (Inl e, h') \<Rightarrow> (Inl e, [], h')
      | (Inr test_spec_dict, h') \<Rightarrow>
          (case create_spec_from_dict mk (h' test_spec_dict) p of
             Inl e \<Rightarrow> (Inl e, [], h')
           | Inr test_spec \<Rightarrow>
               (case should_be_skip test_spec p of
                  (skip, records) \<Rightarrow>
                    (if \<not> skip then Inr (Some test_spec) else Inr None, records, h'))))"

text \<open>
  The collected test item a \<^verbatim>\<open>RegularSpecificationProcessor\<close> holds, with the attributes
  the source reads and the markers it adds.
\<close>

datatype marker = SkipMarker string | OtherMarker string

record pytest_item =
  item_name :: string
  item_originalname :: string
  item_markers :: "marker list"

record regular_specification_processor = specification_processor +
  item :: pytest_item
  rootpath :: path

text \<open>
  \<^verbatim>\<open>RegularSpecificationProcessor.prepare_spec_dict\<close>: the same lookup and assignments into
  the stored dictionary object, but the relativisation is not inside a \<^verbatim>\<open>try\<close>: the five
  assignments before it stay when it raises.
\<close>

definition regular_prepare_spec_dict ::
  "store \<Rightarrow> regular_specification_processor \<Rightarrow> platform_specification \<Rightarrow> string
     \<Rightarrow> (error + ref) \<times> store" where
  "regular_prepare_spec_dict h self p scenario =
     (case map_of (tests self) scenario of
        None \<Rightarrow>
          (Inl (TwisterConfigurationException
                  (no_specification_msg scenario (spec_file_path self))), h)
      | Some test_spec_dict \<Rightarrow>
          (let h1 = setitem h test_spec_dict ''name'' (VStr (item_name (item self)));
               h2 = setitem h1 test_spec_dict ''original_name''
                      (VStr (item_originalname (item self)));
               h3 = setitem h2 test_spec_dict ''source_dir'' (VPath (test_directory_path self));
               h4 = setitem h3 test_spec_dict ''platform'' (VStr (identifier p));
               h5 = setitem h4 test_spec_dict ''build_name'' (VStr scenario)
           in case relative_to (test_directory_path self) (rootpath self) of
                Inl e \<Rightarrow> (Inl e, h5)
              | Inr rel \<Rightarrow>
                  (Inr test_spec_dict,
                   setitem h5 test_spec_dict ''rel_to_base_path'' (VPath rel))))"

text \<open>
  \<^verbatim>\<open>RegularSpecificationProcessor.process\<close>. \<^verbatim>\<open>add_markers_from_specification\<close> is not among
  the sources; it is the parameter \<open>add_markers\<close>. The item gets its markers, so the
  processor is returned as well, with the item as the call leaves it.
\<close>

definition regular_process ::
  "(pydict \<Rightarrow> error + yaml_test_specification)
     \<Rightarrow> (pytest_item \<Rightarrow> yaml_test_specification \<Rightarrow> pytest_item)
     \<Rightarrow> store \<Rightarrow> regular_specification_processor \<Rightarrow> platform_specification \<Rightarrow> string
     \<Rightarrow> (error + yaml_test_specification) \<times> skip_record list \<times> store
         \<times> regular_specification_processor" where
  "regular_process mk add_markers h self p scenario =
     (case regular_prepare_spec_dict h self p scenario of
        (Inl e, h') \<Rightarrow> (Inl e, [], h', self)
      | (Inr test_spec_dict, h') \<Rightarrow>
          (case create_spec_from_dict mk (h' test_spec_dict) p of
             Inl e \<Rightarrow> (Inl e, [], h', self)
           | Inr test_spec \<Rightarrow>
               (let item1 = add_markers (item self) test_spec in
                case should_be_skip test_spec p of
                  (skip, records) \<Rightarrow>
                    (Inr test_spec, records, h',
                     self\<lparr>item :=
                       (if skip
                        then item1\<lparr>item_markers :=
                               item_markers item1 @ [SkipMarker ''Does not match requirements'']\<rparr>
                        else item1)\<rparr>))))"

section \<open>The filter plugin\<close>

text \<open>
  A filter is its method \<^verbatim>\<open>filter(item)\<close>. The inner loop of
  \<^verbatim>\<open>pytest_collection_modifyitems\<close> leaves by \<^verbatim>\<open>break\<close> in both branches of its body, so
  its first round is its last: the rest of the list is never reached. The state is the
  pair of \<^verbatim>\<open>selected_items\<close> and \<^verbatim>\<open>deselected_items\<close>.
\<close>

fun consult_filters ::
  "('a \<Rightarrow> bool) list \<Rightarrow> 'a \<Rightarrow> 'a list \<times> 'a list \<Rightarrow> 'a list \<times> 'a list" where
  "consult_filters [] it (selected_items, deselected_items) =
     (selected_items, deselected_items)"
| "consult_filters (f # fs) it (selected_items, deselected_items) =
     (if f it then (selected_items, deselected_items @ [it])
      else (selected_items @ [it], deselected_items))"

text \<open>
  The hook returns the new content of \<^verbatim>\<open>items\<close> and the calls of
  \<^verbatim>\<open>config.hook.pytest_deselected\<close> it made, each call being its argument.
\<close>

definition pytest_collection_modifyitems ::
  "('a \<Rightarrow> bool) list \<Rightarrow> 'a list \<Rightarrow> 'a list \<times> 'a list list" where
  "pytest_collection_modifyitems filters its =
     (case fold (consult_filters filters) its ([], []) of
        (selected_items, deselected_items) \<Rightarrow>
          (selected_items, if deselected_items \<noteq> [] then [deselected_items] else []))"

text \<open>\<^verbatim>\<open>add_filter\<close> appends a filter that is not yet registered.\<close>

definition add_filter :: "'f list \<Rightarrow> 'f \<Rightarrow> 'f list" where
  "add_filter filters f = (if f \<notin> set filters then filters @ [f] else filters)"

text \<open>
  The selection as the specification words it, for comparison with the hook: an item is
  deselected when some registered filter returns true for it and kept otherwise, and the
  deselected items are reported in one call when there are any.
\<close>

definition selection_as_specified ::
  "('a \<Rightarrow> bool) list \<Rightarrow> 'a list \<Rightarrow> 'a list \<times> 'a list list" where
  "selection_as_specified filters its =
     (let deselected_items = filter (\<lambda>it. list_ex (\<lambda>f. f it) filters) its
      in (filter (\<lambda>it. \<not> list_ex (\<lambda>f. f it) filters) its,
          if deselected_items \<noteq> [] then [deselected_items] else []))"

section \<open>Concrete inputs\<close>

text \<open>
  A scenario without constraints, a platform whose timeout multiplier is the float 1.5,
  a store in which object 0 is the dictionary of the scenario \<^verbatim>\<open>sample.basic\<close>, and one
  processor of each kind whose test directory lies outside the base directory; the
  evaluations below start from them.
\<close>

definition example_spec :: yaml_test_specification where
  "example_spec =
     \<lparr>name = ''sample.basic[native]'', original_name = ''sample.basic'',
      platform = ''native'', build_name = [], source_dir = [''/'', ''ext'', ''tests''],
      rel_to_base_path = VStr ''out_of_tree'', timeout = PyInt 5,
      arch_allow = {}, arch_exclude = {}, platform_allow = {}, platform_exclude = {},
      platform_type = {}, min_ram = 0, min_flash = 0,
      toolchain_allow = {}, toolchain_exclude = {}, tags = {}, harness = [],
      filter' = []\<rparr>"

definition example_platform :: platform_specification where
  "example_platform =
     \<lparr>identifier = ''native'', arch = ''arm'', type' = ''sim'', ram = 32, flash = 64,
      toolchain = [''zephyr''], only_tags = [], ignore_tags = [],
      testing = \<lparr>timeout_multiplier = PyFloat (Fin (3 / 2))\<rparr>\<rparr>"

definition example_store :: store where
  "example_store = (\<lambda>d. [])(0 := [(''timeout'', VInt 5)])"

definition example_yaml_processor :: yaml_specification_processor where
  "example_yaml_processor =
     \<lparr>spec_file_path = [''/'', ''ext'', ''tests'', ''testcase.yaml''],
      test_directory_path = [''/'', ''ext'', ''tests''],
      raw_spec = \<lparr>raw_common = None, raw_tests = [(''sample.basic'', 0)]\<rparr>,
      tests = [(''sample.basic'', 0)],
      zephyr_base = [''/'', ''zephyr'']\<rparr>"

definition example_regular_processor :: regular_specification_processor where
  "example_regular_processor =
     \<lparr>spec_file_path = [''/'', ''ext'', ''tests'', ''testspec.yaml''],
      test_directory_path = [''/'', ''ext'', ''tests''],
      raw_spec = \<lparr>raw_common = None, raw_tests = [(''sample.basic'', 0)]\<rparr>,
      tests = [(''sample.basic'', 0)],
      item = \<lparr>item_name = ''test_basic[native]'', item_originalname = ''test_basic'',
              item_markers = []\<rparr>,
      rootpath = [''/'', ''proj'']\<rparr>"

text \<open>
  The float nearest to 1.1, the value a platform file that says \<^verbatim>\<open>1.1\<close> gives.
\<close>

definition float_1_1 :: pyfloat where
  "float_1_1 = Fin (2476979795053773 / 2251799813685248)"

section \<open>Properties of the eligibility predicates\<close>

lemma any_iff: "any bs \<longleftrightarrow> (\<exists>b \<in> set bs. b)"
  by (induction bs) auto

lemma fst_should_skip_for_arch:
  "fst (should_skip_for_arch ts p) \<longleftrightarrow>
     (arch_allow ts \<noteq> {} \<and> arch p \<notin> arch_allow ts) \<or> arch p \<in> arch_exclude ts"
  by (auto simp: should_skip_for_arch_def)

lemma fst_should_be_skip:
  "fst (should_be_skip ts p) \<longleftrightarrow>
     fst (should_skip_for_arch ts p) \<or> fst (should_skip_for_platform ts p)
     \<or> fst (should_skip_for_platform_type ts p) \<or> fst (should_skip_for_min_ram ts p)
     \<or> fst (should_skip_for_min_flash ts p) \<or> fst (should_skip_for_toolchain ts p)
     \<or> fst (should_skip_for_tag ts p) \<or> fst (should_skip_for_pytest_harness ts p)"
  unfolding should_be_skip_def Let_def by (simp only: any_iff fst_conv) auto

text \<open>
  Claim C1. For every test specification and platform, the decision of \<^verbatim>\<open>should_be_skip\<close>
  is the disjunction of the eight predicates (architecture, platform identity, platform
  type, minimum RAM, minimum flash, toolchain, tags, harness). The architecture predicate
  holds exactly when \<open>arch_allow\<close> is not empty and does not contain the platform's
  architecture, or \<open>arch_exclude\<close> contains it; with both sets empty it is false. An
  empty allow-set never restricts: with \<open>arch_allow\<close>, \<open>platform_allow\<close>,
  \<open>toolchain_allow\<close> or the platform's \<open>only_tags\<close> empty, the predicate is decided by
  the exclude side alone, and an empty \<open>platform_type\<close> never skips.
\<close>

theorem should_be_skip_disjunction:
  "(fst (should_be_skip ts p) \<longleftrightarrow>
      fst (should_skip_for_arch ts p) \<or> fst (should_skip_for_platform ts p)
      \<or> fst (should_skip_for_platform_type ts p) \<or> fst (should_skip_for_min_ram ts p)
      \<or> fst (should_skip_for_min_flash ts p) \<or> fst (should_skip_for_toolchain ts p)
      \<or> fst (should_skip_for_tag ts p) \<or> fst (should_skip_for_pytest_harness ts p))
   \<and> (fst (should_skip_for_arch ts p) \<longleftrightarrow>
        (arch_allow ts \<noteq> {} \<and> arch p \<notin> arch_allow ts) \<or> arch p \<in> arch_exclude ts)
   \<and> \<not> fst (should_skip_for_arch (ts\<lparr>arch_allow := {}, arch_exclude := {}\<rparr>) p)
   \<and> (fst (should_skip_for_arch (ts\<lparr>arch_allow := {}\<rparr>) p) \<longleftrightarrow> arch p \<in> arch_exclude ts)
   \<and> (fst (should_skip_for_platform (ts\<lparr>platform_allow := {}\<rparr>) p)
        \<longleftrightarrow> identifier p \<in> platform_exclude ts)
   \<and> \<not> fst (should_skip_for_platform_type (ts\<lparr>platform_type := {}\<rparr>) p)
   \<and> (fst (should_skip_for_toolchain (ts\<lparr>toolchain_allow := {}\<rparr>) p)
        \<longleftrightarrow> toolchain_exclude ts \<inter> set (toolchain p) \<noteq> {})
   \<and> (fst (should_skip_for_tag ts (p\<lparr>only_tags := []\<rparr>))
        \<longleftrightarrow> set (ignore_tags p) \<inter> tags ts \<noteq> {})"
proof -
  have arch: "fst (should_skip_for_arch ts' p) \<longleftrightarrow>
      (arch_allow ts' \<noteq> {} \<and> arch p \<notin> arch_allow ts') \<or> arch p \<in> arch_exclude ts'" for ts'
    by (rule fst_should_skip_for_arch)
  have plat: "fst (should_skip_for_platform (ts\<lparr>platform_allow := {}\<rparr>) p)
        \<longleftrightarrow> identifier p \<in> platform_exclude ts"
    by (auto simp: should_skip_for_platform_def)
  have ptype: "\<not> fst (should_skip_for_platform_type (ts\<lparr>platform_type := {}\<rparr>) p)"
    by (simp add: should_skip_for_platform_type_def)
  have tool: "fst (should_skip_for_toolchain (ts\<lparr>toolchain_allow := {}\<rparr>) p)
        \<longleftrightarrow> toolchain_exclude ts \<inter> set (toolchain p) \<noteq> {}"
    by (auto simp: should_skip_for_toolchain_def)
  have tag: "fst (should_skip_for_tag ts (p\<lparr>only_tags := []\<rparr>))
        \<longleftrightarrow> set (ignore_tags p) \<inter> tags ts \<noteq> {}"
    by (auto simp: should_skip_for_tag_def)
  show ?thesis
    using fst_should_be_skip [of ts p] arch [of ts]
      arch [of "ts\<lparr>arch_allow := {}, arch_exclude := {}\<rparr>"]
      arch [of "ts\<lparr>arch_allow := {}\<rparr>"] plat ptype tool tag
    by simp
qed

text \<open>
  At the platform of architecture \<^verbatim>\<open>arm\<close>: a scenario that allows only \<^verbatim>\<open>x86\<close> is
  skipped, the scenario without constraints is not.
\<close>

theorem should_be_skip_disjunction_witness:
  "fst (should_be_skip (example_spec\<lparr>arch_allow := {''x86''}\<rparr>) example_platform)
   \<and> \<not> fst (should_be_skip example_spec example_platform)"
  using should_be_skip_disjunction [of "example_spec\<lparr>arch_allow := {''x86''}\<rparr>" example_platform]
    should_be_skip_disjunction [of example_spec example_platform]
  by (simp add: example_spec_def example_platform_def should_skip_for_platform_def
      should_skip_for_platform_type_def should_skip_for_min_ram_def should_skip_for_min_flash_def
      should_skip_for_toolchain_def should_skip_for_tag_def should_skip_for_pytest_harness_def)

text \<open>
  Claim C9. The minimum-RAM predicate skips exactly when the declared \<open>min_ram\<close> is
  strictly greater than the platform's RAM, the minimum-flash predicate exactly when the
  declared \<open>min_flash\<close> is strictly greater than the platform's flash; a declared
  minimum equal to what the platform has does not skip.
\<close>

theorem min_ram_flash_strict:
  "(fst (should_skip_for_min_ram ts p) \<longleftrightarrow> min_ram ts > ram p)
   \<and> (fst (should_skip_for_min_flash ts p) \<longleftrightarrow> min_flash ts > flash p)
   \<and> \<not> fst (should_skip_for_min_ram (ts\<lparr>min_ram := ram p\<rparr>) p)
   \<and> \<not> fst (should_skip_for_min_flash (ts\<lparr>min_flash := flash p\<rparr>) p)"
  by (simp add: should_skip_for_min_ram_def should_skip_for_min_flash_def)

text \<open>
  The platform has 32 of RAM and 64 of flash: declaring 64 of RAM skips, declaring
  exactly 32 does not; declaring 65 of flash skips, declaring exactly 64 does not.
\<close>

theorem min_ram_flash_strict_witness:
  "fst (should_skip_for_min_ram (example_spec\<lparr>min_ram := 64\<rparr>) example_platform)
   \<and> \<not> fst (should_skip_for_min_ram (example_spec\<lparr>min_ram := 32\<rparr>) example_platform)
   \<and> fst (should_skip_for_min_flash (example_spec\<lparr>min_flash := 65\<rparr>) example_platform)
   \<and> \<not> fst (should_skip_for_min_flash (example_spec\<lparr>min_flash := 64\<rparr>) example_platform)"
  using min_ram_flash_strict [of "example_spec\<lparr>min_ram := 64\<rparr>" example_platform]
    min_ram_flash_strict [of "example_spec\<lparr>min_ram := 32\<rparr>" example_platform]
    min_ram_flash_strict [of "example_spec\<lparr>min_flash := 65\<rparr>" example_platform]
    min_ram_flash_strict [of "example_spec\<lparr>min_flash := 64\<rparr>" example_platform]
  by (simp add: example_spec_def example_platform_def)

section \<open>The skip log\<close>

lemma snd_should_be_skip:
  "snd (should_be_skip ts p) =
     snd (should_skip_for_arch ts p) @ snd (should_skip_for_min_flash ts p)
     @ snd (should_skip_for_min_ram ts p) @ snd (should_skip_for_platform ts p)
     @ snd (should_skip_for_platform_type ts p) @ snd (should_skip_for_pytest_harness ts p)
     @ snd (should_skip_for_tag ts p) @ snd (should_skip_for_toolchain ts p)"
  by (simp add: should_be_skip_def Let_def)

lemma predicate_log_lengths:
  "length (snd (should_skip_for_arch ts p)) = of_bool (fst (should_skip_for_arch ts p))"
  "length (snd (should_skip_for_min_flash ts p)) = of_bool (fst (should_skip_for_min_flash ts p))"
  "length (snd (should_skip_for_min_ram ts p)) = of_bool (fst (should_skip_for_min_ram ts p))"
  "length (snd (should_skip_for_platform ts p)) = of_bool (fst (should_skip_for_platform ts p))"
  "length (snd (should_skip_for_platform_type ts p))
     = of_bool (fst (should_skip_for_platform_type ts p))"
  "length (snd (should_skip_for_pytest_harness ts p))
     = of_bool (fst (should_skip_for_pytest_harness ts p))"
  "length (snd (should_skip_for_tag ts p)) = of_bool (fst (should_skip_for_tag ts p))"
  "length (snd (should_skip_for_toolchain ts p)) = of_bool (fst (should_skip_for_toolchain ts p))"
  by (simp_all add: should_skip_for_arch_def should_skip_for_min_flash_def
      should_skip_for_min_ram_def should_skip_for_platform_def should_skip_for_platform_type_def
      should_skip_for_pytest_harness_def should_skip_for_tag_def should_skip_for_toolchain_def
      log_test_skip_def)

text \<open>
  Claim C6, as the code has it. The eight predicates are all evaluated, in the order of
  the list in \<^verbatim>\<open>should_be_skip\<close> (architecture, minimum flash, minimum RAM, platform
  identity, platform type, harness, tags, toolchain), whatever the earlier ones returned:
  the skip log of a pair is the concatenation of what each predicate wrote. A predicate
  writes one record when it returns true and none when it returns false, so a pair gets
  as many records as predicates match: none exactly when it is not skipped, and at most
  eight.
\<close>

theorem should_be_skip_logs_every_match:
  "snd (should_be_skip ts p) =
     snd (should_skip_for_arch ts p) @ snd (should_skip_for_min_flash ts p)
     @ snd (should_skip_for_min_ram ts p) @ snd (should_skip_for_platform ts p)
     @ snd (should_skip_for_platform_type ts p) @ snd (should_skip_for_pytest_harness ts p)
     @ snd (should_skip_for_tag ts p) @ snd (should_skip_for_toolchain ts p)
   \<and> length (snd (should_skip_for_arch ts p)) = of_bool (fst (should_skip_for_arch ts p))
   \<and> length (snd (should_skip_for_min_flash ts p))
       = of_bool (fst (should_skip_for_min_flash ts p))
   \<and> length (snd (should_skip_for_min_ram ts p)) = of_bool (fst (should_skip_for_min_ram ts p))
   \<and> length (snd (should_skip_for_platform ts p))
       = of_bool (fst (should_skip_for_platform ts p))
   \<and> length (snd (should_skip_for_platform_type ts p))
       = of_bool (fst (should_skip_for_platform_type ts p))
   \<and> length (snd (should_skip_for_pytest_harness ts p))
       = of_bool (fst (should_skip_for_pytest_harness ts p))
   \<and> length (snd (should_skip_for_tag ts p)) = of_bool (fst (should_skip_for_tag ts p))
   \<and> length (snd (should_skip_for_toolchain ts p))
       = of_bool (fst (should_skip_for_toolchain ts p))
   \<and> length (snd (should_be_skip ts p)) =
       length (filter (\<lambda>b. b)
         [fst (should_skip_for_arch ts p), fst (should_skip_for_min_flash ts p),
          fst (should_skip_for_min_ram ts p), fst (should_skip_for_platform ts p),
          fst (should_skip_for_platform_type ts p), fst (should_skip_for_pytest_harness ts p),
          fst (should_skip_for_tag ts p), fst (should_skip_for_toolchain ts p)])
   \<and> (fst (should_be_skip ts p) \<longleftrightarrow> snd (should_be_skip ts p) \<noteq> [])
   \<and> length (snd (should_be_skip ts p)) \<le> 8"
proof -
  have len: "length (snd (should_be_skip ts p)) =
       length (filter (\<lambda>b. b)
         [fst (should_skip_for_arch ts p), fst (should_skip_for_min_flash ts p),
          fst (should_skip_for_min_ram ts p), fst (should_skip_for_platform ts p),
          fst (should_skip_for_platform_type ts p), fst (should_skip_for_pytest_harness ts p),
          fst (should_skip_for_tag ts p), fst (should_skip_for_toolchain ts p)])"
    by (simp add: snd_should_be_skip predicate_log_lengths)
  have nonempty: "fst (should_be_skip ts p) \<longleftrightarrow> snd (should_be_skip ts p) \<noteq> []"
    unfolding length_greater_0_conv [symmetric] len fst_should_be_skip by auto
  have le: "length (snd (should_be_skip ts p)) \<le> 8"
    unfolding len by (rule order_trans [OF length_filter_le]) simp
  show ?thesis
    using len nonempty le snd_should_be_skip [of ts p] predicate_log_lengths [of ts p]
    by simp
qed

text \<open>
  One matching predicate gives one record, no matching predicate gives none.
\<close>

theorem should_be_skip_logs_every_match_witness:
  "snd (should_be_skip (example_spec\<lparr>arch_allow := {''x86''}\<rparr>) example_platform)
     = [(''sample.basic'', ''native'', ''platform.arch not in testcase.arch_allow'')]
   \<and> snd (should_be_skip example_spec example_platform) = []"
  using should_be_skip_logs_every_match [of "example_spec\<lparr>arch_allow := {''x86''}\<rparr>" example_platform]
    should_be_skip_logs_every_match [of example_spec example_platform]
  by (simp add: example_spec_def example_platform_def should_skip_for_arch_def
      should_skip_for_min_flash_def
      should_skip_for_min_ram_def should_skip_for_platform_def should_skip_for_platform_type_def
      should_skip_for_pytest_harness_def should_skip_for_tag_def should_skip_for_toolchain_def
      log_test_skip_def)

text \<open>
  Claim C6, as stated, fails: for a scenario that allows only \<^verbatim>\<open>x86\<close> and excludes the
  toolchain \<^verbatim>\<open>zephyr\<close>, on a platform of architecture \<^verbatim>\<open>arm\<close> with that toolchain, the
  first predicate of the list is true, and the last one is evaluated all the same and
  writes a second record.
\<close>

theorem should_be_skip_two_reasons:
  "snd (should_be_skip (example_spec\<lparr>arch_allow := {''x86''}, toolchain_exclude := {''zephyr''}\<rparr>)
          example_platform)
     = [(''sample.basic'', ''native'', ''platform.arch not in testcase.arch_allow''),
        (''sample.basic'', ''native'', ''platform.toolchain in testcase.toolchain_exclude'')]
   \<and> length (snd (should_be_skip
          (example_spec\<lparr>arch_allow := {''x86''}, toolchain_exclude := {''zephyr''}\<rparr>)
          example_platform)) \<noteq> 1"
  by (simp add: should_be_skip_def example_spec_def example_platform_def should_skip_for_arch_def
      should_skip_for_min_flash_def
      should_skip_for_min_ram_def should_skip_for_platform_def should_skip_for_platform_type_def
      should_skip_for_pytest_harness_def should_skip_for_tag_def should_skip_for_toolchain_def
      log_test_skip_def)

section \<open>Combining filter expressions\<close>

lemma join_filters_two:
  "join_filters [VStr B, VStr A] =
     Inr (if B \<noteq> [] \<and> A \<noteq> [] then ''('' @ B @ '') and ('' @ A @ '')''
          else if B \<noteq> [] then ''('' @ B @ '')''
          else if A \<noteq> [] then ''('' @ A @ '')''
          else [])"
  by (simp add: join_filters_def)

text \<open>
  Claim C2, as the code has it. Combining the scenario's filter \<open>B\<close> with the common
  filter \<open>A\<close> gives \<^verbatim>\<open>(B) and (A)\<close> when both are non-empty; when one of them is empty
  the other comes back wrapped in parentheses, \<^verbatim>\<open>(B)\<close> or \<^verbatim>\<open>(A)\<close>; two empty
  expressions give the empty string. A scenario that has no \<^verbatim>\<open>filter\<close> key at all
  inherits the common filter unchanged, without parentheses; a scenario that has the key
  gets the combination.
\<close>

theorem join_filters_combination:
  "join_filters [VStr B, VStr A] =
     Inr (if B \<noteq> [] \<and> A \<noteq> [] then ''('' @ B @ '') and ('' @ A @ '')''
          else if B \<noteq> [] then ''('' @ B @ '')''
          else if A \<noteq> [] then ''('' @ A @ '')''
          else [])
   \<and> (case map_of d ''filter'' of
         None \<Rightarrow>
           merge_common_item (''filter'', VStr A) d = Inr (AList.update ''filter'' (VStr A) d)
       | Some own \<Rightarrow>
           merge_common_item (''filter'', VStr A) d =
             (case join_filters [own, VStr A] of
                Inl e \<Rightarrow> Inl e
              | Inr s \<Rightarrow> Inr (AList.update ''filter'' (VStr s) d)))"
  by (simp add: join_filters_two merge_common_item_def split: option.split)

text \<open>The four combinations and the two cases of the merge, evaluated.\<close>

theorem join_filters_combination_witness:
  "join_filters [VStr ''B'', VStr ''A''] = Inr ''(B) and (A)''
   \<and> join_filters [VStr ''B'', VStr []] = Inr ''(B)''
   \<and> join_filters [VStr [], VStr ''A''] = Inr ''(A)''
   \<and> join_filters [VStr [], VStr []] = Inr []
   \<and> merge_common_item (''filter'', VStr ''A'') [(''tags'', VStr ''x'')]
       = Inr [(''tags'', VStr ''x''), (''filter'', VStr ''A'')]
   \<and> merge_common_item (''filter'', VStr ''A'') [(''filter'', VStr ''B'')]
       = Inr [(''filter'', VStr ''(B) and (A)'')]"
  using join_filters_combination [of "''B''" "''A''" "[(''tags'', VStr ''x'')]"]
    join_filters_combination [of "''B''" "''A''" "[(''filter'', VStr ''B'')]"]
    join_filters_combination [of "''B''" "[]" "[]"]
    join_filters_combination [of "[]" "''A''" "[]"]
    join_filters_combination [of "[]" "[]" "[]"]
  by simp

text \<open>
  Claim C2, as stated, fails: combined with the empty expression, \<^verbatim>\<open>B\<close> comes back as
  \<^verbatim>\<open>(B)\<close>, not unchanged; and a scenario whose \<^verbatim>\<open>filter\<close> is the empty string gets the
  common filter \<^verbatim>\<open>A\<close> as \<^verbatim>\<open>(A)\<close>.
\<close>

theorem join_filters_empty_side_wraps:
  "join_filters [VStr ''B'', VStr []] = Inr ''(B)''
   \<and> join_filters [VStr ''B'', VStr []] \<noteq> Inr ''B''
   \<and> merge_common_item (''filter'', VStr ''A'') [(''filter'', VStr [])]
       = Inr [(''filter'', VStr ''(A)'')]"
  by (simp add: join_filters_def merge_common_item_def)

section \<open>The collection hook\<close>

lemma fold_consult_filters_Cons:
  "fold (consult_filters (f # fs)) its (sel, desel) =
     (sel @ filter (\<lambda>x. \<not> f x) its, desel @ filter f its)"
  by (induction its arbitrary: sel desel) simp_all

lemma fold_consult_filters_Nil: "fold (consult_filters []) its st = st"
  by (induction its arbitrary: st) (auto simp: split_paired_all)

text \<open>
  With at least one filter registered, the hook is decided by the first one alone.
\<close>

lemma only_first_filter_consulted:
  "pytest_collection_modifyitems (f # fs) its =
     (filter (\<lambda>x. \<not> f x) its, if filter f its \<noteq> [] then [filter f its] else [])"
  using fold_consult_filters_Cons [of f fs its "[]" "[]"]
  by (simp add: pytest_collection_modifyitems_def)

lemma single_filter_as_specified:
  "pytest_collection_modifyitems [f] its = selection_as_specified [f] its"
  by (simp add: only_first_filter_consulted selection_as_specified_def)

text \<open>
  Claim C3 at the input where the code departs from it: two filters are registered, the
  first does not match the item and the second does. The hook keeps the item and reports
  nothing as deselected; evaluated in registration order up to the first match, the
  second filter deselects it.
\<close>

theorem later_filter_never_consulted:
  "pytest_collection_modifyitems [\<lambda>x. False, \<lambda>x. True] [''A''] = ([''A''], [])
   \<and> selection_as_specified [\<lambda>x. False, \<lambda>x. True] [''A''] = ([], [[''A'']])"
  by (simp add: pytest_collection_modifyitems_def selection_as_specified_def)

text \<open>
  Claim C10. With no filter registered, the hook replaces the collection by the empty
  list and does not call \<^verbatim>\<open>pytest_deselected\<close>: no item is kept and none is reported.
\<close>

theorem no_filters_drops_everything:
  "pytest_collection_modifyitems [] its = ([], [])"
  by (simp add: pytest_collection_modifyitems_def fold_consult_filters_Nil)

section \<open>Rounding to a float\<close>

text \<open>Powers of two.\<close>

lemma pow2_powi: "pow2 k = 2 powi k"
  by (simp add: pow2_def power_int_def inverse_eq_divide power_one_over)

lemma pow2_pos: "0 < pow2 k"
  by (simp add: pow2_powi)

lemma pow2_add: "pow2 (a + b) = pow2 a * pow2 b"
  by (simp add: pow2_powi power_int_add)

lemma pow2_mono: "a \<le> b \<Longrightarrow> pow2 a \<le> pow2 b"
  by (simp add: pow2_powi power_int_increasing)

lemma pow2_strict_mono: "a < b \<Longrightarrow> pow2 a < pow2 b"
  by (simp add: pow2_powi power_int_strict_increasing)

lemma pow2_less_cancel: "pow2 a < pow2 b \<Longrightarrow> a < b"
  using pow2_mono [of b a] by (cases "a < b") auto

lemma pow2_nat: "pow2 (int k) = 2 ^ k"
  by (simp add: pow2_def)

lemma pow2_neg_nat: "pow2 (- int k) = 1 / 2 ^ k"
  by (simp add: pow2_powi power_int_minus field_simps)

text \<open>A positive number lies between two neighbouring powers of two, as its exponent says.\<close>

lemma bit_length_bounds:
  "0 < n \<Longrightarrow> 2 ^ (bit_length n - 1) \<le> n \<and> n < 2 ^ bit_length n"
proof (induction n rule: bit_length.induct)
  case (1 n)
  show ?case
  proof (cases "n div 2 = 0")
    case True
    with "1.prems" have "n = 1" by (auto simp: div_eq_0_iff)
    then show ?thesis by (simp add: bit_length.simps)
  next
    case False
    then have pos: "0 < n div 2" by simp
    from "1.IH" [OF _ pos] "1.prems"
    have ih: "2 ^ (bit_length (n div 2) - 1) \<le> n div 2" "n div 2 < 2 ^ bit_length (n div 2)"
      by auto
    have bl: "bit_length n = Suc (bit_length (n div 2))"
      using "1.prems" by (subst bit_length.simps) simp
    have blpos: "0 < bit_length (n div 2)"
      using pos by (subst bit_length.simps) simp
    have "2 ^ (bit_length n - 1) = 2 * 2 ^ (bit_length (n div 2) - 1)"
      using blpos by (simp add: bl power_eq_if)
    also have "\<dots> \<le> 2 * (n div 2)" using ih(1) by simp
    also have "\<dots> \<le> n" by simp
    finally have lo: "2 ^ (bit_length n - 1) \<le> n" .
    have "n < 2 * (n div 2) + 2" by presburger
    also have "\<dots> \<le> 2 * 2 ^ bit_length (n div 2)" using ih(2) by simp
    finally have hi: "n < 2 ^ bit_length n" by (simp add: bl)
    from lo hi show ?thesis ..
  qed
qed

lemma floor_log2_bounds:
  assumes "0 < x"
  shows "pow2 (floor_log2 x) \<le> x \<and> x < pow2 (floor_log2 x + 1)"
proof (cases "1 \<le> x")
  case True
  define n where "n = nat \<lfloor>x\<rfloor>"
  have npos: "0 < n" using True by (simp add: n_def)
  have nx: "of_nat n \<le> x" "x < of_nat n + 1"
    using True floor_correct [of x] by (simp_all add: n_def)
  from bit_length_bounds [OF npos]
  have b: "2 ^ (bit_length n - 1) \<le> n" "n < 2 ^ bit_length n" by auto
  have blpos: "0 < bit_length n" using npos by (subst bit_length.simps) simp
  have fl: "floor_log2 x = int (bit_length n - 1)"
    using True blpos by (simp add: floor_log2_def n_def)
  have fl1: "floor_log2 x + 1 = int (bit_length n)"
    using blpos by (simp add: fl)
  have "pow2 (floor_log2 x) = of_nat (2 ^ (bit_length n - 1))"
    unfolding fl pow2_nat by simp
  also have "\<dots> \<le> of_nat n" using b(1) by (simp only: of_nat_le_iff)
  finally have lo: "pow2 (floor_log2 x) \<le> x" using nx(1) by simp
  have "Suc n \<le> 2 ^ bit_length n" using b(2) by simp
  then have "(of_nat (Suc n) :: rat) \<le> of_nat (2 ^ bit_length n)"
    by (simp only: of_nat_le_iff)
  then have "of_nat n + 1 \<le> (of_nat (2 ^ bit_length n) :: rat)" by simp
  then have hi: "x < pow2 (floor_log2 x + 1)"
    unfolding fl1 pow2_nat using nx(2) by simp
  from lo hi show ?thesis ..
next
  case False
  define c where "c = \<lceil>1 / x\<rceil>"
  define j where "j = bit_length (nat (c - 1))"
  have x1: "x < 1" using False by simp
  have y1: "1 < 1 / x" using assms x1 by simp
  have c2: "2 \<le> c" unfolding c_def using y1 by linarith
  have cy: "1 / x \<le> of_int c" "of_int c - 1 < 1 / x"
    unfolding c_def by linarith+
  have mpos: "0 < nat (c - 1)" using c2 by simp
  from bit_length_bounds [OF mpos]
  have b: "2 ^ (j - 1) \<le> nat (c - 1)" "nat (c - 1) < 2 ^ j" by (auto simp: j_def)
  have jpos: "0 < j" unfolding j_def using mpos by (subst bit_length.simps) simp
  have fl: "floor_log2 x = - int j"
    using False by (simp add: floor_log2_def j_def c_def)
  have "c \<le> 2 ^ j"
  proof -
    have "int (nat (c - 1)) < int (2 ^ j)" using b(2) by (simp only: of_nat_less_iff)
    then show ?thesis using c2 by simp
  qed
  then have "(of_int c :: rat) \<le> of_int (2 ^ j)" by (simp only: of_int_le_iff)
  then have "(of_int c :: rat) \<le> 2 ^ j" by simp
  then have "1 / x \<le> 2 ^ j" using cy(1) by linarith
  then have "1 \<le> 2 ^ j * x" using assms by (simp add: field_simps)
  then have lo: "pow2 (floor_log2 x) \<le> x"
    unfolding fl pow2_neg_nat by (simp add: field_simps)
  have "2 ^ (j - 1) \<le> c - 1"
  proof -
    have "int (2 ^ (j - 1)) \<le> int (nat (c - 1))" using b(1) by (simp only: of_nat_le_iff)
    then show ?thesis using c2 by simp
  qed
  then have "(of_int (2 ^ (j - 1)) :: rat) \<le> of_int (c - 1)" by (simp only: of_int_le_iff)
  then have "(2 ^ (j - 1) :: rat) \<le> of_int c - 1" by simp
  then have "2 ^ (j - 1) < 1 / x" using cy(2) by linarith
  then have lt: "2 ^ (j - 1) * x < 1" using assms by (simp add: field_simps)
  have "floor_log2 x + 1 = - int (j - 1)" using jpos by (simp add: fl)
  then have eq: "pow2 (floor_log2 x + 1) = 1 / 2 ^ (j - 1)"
    by (simp only: pow2_neg_nat)
  have "x < 1 / 2 ^ (j - 1)" using lt by (simp add: field_simps)
  then have hi: "x < pow2 (floor_log2 x + 1)"
    by (simp only: eq)
  from lo hi show ?thesis ..
qed

text \<open>
  A number that is a float already is rounded to itself: a product that is representable
  is computed exactly.
\<close>

lemma round_half_even_int: "round_half_even (of_int N) = N"
  by (simp add: round_half_even_def)

lemma round_double_exact_pos:
  assumes x: "x = of_int n * pow2 e" and n: "0 < n" "n < 2 ^ 53"
    and e: "- 1074 \<le> e" "e \<le> 971"
  shows "round_double x = Fin x"
proof -
  have xpos: "0 < x" using x n(1) pow2_pos [of e] by simp
  define k where "k = floor_log2 x"
  define e' where "e' = max (k - 52) (- 1074)"
  from floor_log2_bounds [OF xpos] have lo: "pow2 k \<le> x" by (simp add: k_def)
  have "(of_int n :: rat) < of_int (2 ^ 53)" using n(2) by (simp only: of_int_less_iff)
  then have "(of_int n :: rat) < pow2 53" by (simp add: pow2_def)
  then have "x < pow2 53 * pow2 e" using x pow2_pos [of e] by simp
  then have xlt: "x < pow2 (53 + e)" by (simp add: pow2_add)
  with lo have "pow2 k < pow2 (53 + e)" by simp
  then have "k < 53 + e" by (rule pow2_less_cancel)
  then have le: "e' \<le> e" using e(1) by (simp add: e'_def)
  define N where "N = n * 2 ^ nat (e - e')"
  have "pow2 e = pow2 (e - e') * pow2 e'" by (simp add: pow2_add [symmetric])
  also have "pow2 (e - e') = 2 ^ nat (e - e')" using le by (simp add: pow2_def)
  finally have split: "pow2 e = 2 ^ nat (e - e') * pow2 e'" .
  have prod: "x = of_int N * pow2 e'" by (simp add: x split N_def)
  have quot: "x / pow2 e' = of_int N" using pow2_pos [of e'] by (simp add: prod)
  have "53 + e \<le> 1024" using e(2) by simp
  then have "pow2 (53 + e) \<le> pow2 1024" by (rule pow2_mono)
  with xlt have fin: "\<not> pow2 1024 \<le> x" by simp
  have "round_double x =
          (let y = of_int (round_half_even (x / pow2 e')) * pow2 e'
           in if pow2 1024 \<le> y then Inf (0 < x) else Fin (if 0 < x then y else - y))"
    using xpos by (simp add: round_double_def Let_def k_def e'_def)
  also have "\<dots> = Fin x"
    using xpos fin by (simp add: quot round_half_even_int prod [symmetric] Let_def)
  finally show ?thesis .
qed

lemma round_double_neg: "round_double (- x) = (case round_double x of Fin y \<Rightarrow> Fin (- y) | Inf s \<Rightarrow> Inf (\<not> s) | NaN \<Rightarrow> NaN)"
  by (cases "x = 0"; cases "0 < x") (auto simp: round_double_def Let_def)

lemma round_double_exact: "representable x \<Longrightarrow> round_double x = Fin x"
proof -
  assume "representable x"
  then obtain n e where x: "x = of_int n * pow2 e" and n: "\<bar>n\<bar> < 2 ^ 53"
    and e: "- 1074 \<le> e" "e \<le> 971"
    by (auto simp: representable_def)
  consider "n = 0" | "0 < n" | "n < 0" by linarith
  then show ?thesis
  proof cases
    case 1
    then show ?thesis by (simp add: x round_double_def)
  next
    case 2
    then show ?thesis using round_double_exact_pos [OF x _ _ e] n by simp
  next
    case 3
    have "- x = of_int (- n) * pow2 e" by (simp add: x)
    from round_double_exact_pos [OF this _ _ e] 3 n have "round_double (- x) = Fin (- x)"
      by simp
    then show ?thesis using round_double_neg [of x] by (auto split: pyfloat.splits)
  qed
qed

lemma int_to_float_exact: "representable (of_int a) \<Longrightarrow> int_to_float a = Inr (Fin (of_int a))"
  by (simp add: int_to_float_def round_double_exact)

lemma py_mul_exact:
  assumes "value_of a = Some t" and "value_of b = Some m"
    and "representable t" and "representable m" and "representable (t * m)"
  shows "\<exists>product. py_mul a b = Inr product \<and> value_of product = Some (t * m)"
proof (cases a)
  case (PyInt i)
  then have t: "t = of_int i" using assms(1) by simp
  show ?thesis
  proof (cases b)
    case (PyInt j)
    then show ?thesis using \<open>a = PyInt i\<close> assms(2) t by simp
  next
    case (PyFloat g)
    then obtain y where "g = Fin y" using assms(2) by (cases g) auto
    then show ?thesis
      using \<open>a = PyInt i\<close> PyFloat assms t
      by (simp add: int_to_float_exact round_double_exact)
  qed
next
  case (PyFloat f)
  then obtain x where f: "f = Fin x" using assms(1) by (cases f) auto
  then have t: "t = x" using PyFloat assms(1) by simp
  show ?thesis
  proof (cases b)
    case (PyInt j)
    then show ?thesis
      using PyFloat f assms t by (simp add: int_to_float_exact round_double_exact)
  next
    case b: (PyFloat g)
    then obtain y where "g = Fin y" using assms(2) by (cases g) auto
    then show ?thesis
      using PyFloat f b assms t by (simp add: round_double_exact)
  qed
qed

section \<open>The resolved timeout\<close>

text \<open>\<^verbatim>\<open>math.ceil\<close> of a finite number is the ceiling of its value.\<close>

lemma math_ceil_value:
  "value_of product = Some x \<Longrightarrow> math_ceil product = Inr \<lceil>x\<rceil>"
  by (induction product rule: value_of.induct) auto

text \<open>
  Claim C7, as the code has it. When the constructor returns a specification and the
  product of its declared timeout and the platform's multiplier, as Python computes it,
  is a finite number \<open>x\<close>, the resolved specification is that one with its timeout
  replaced by the integer \<^verbatim>\<open>math.ceil\<close> gives, the ceiling of \<open>x\<close>: it is never below
  that product, less than one above it, and never below the truncated product. Whenever
  the two operands and their exact product \<open>t * m\<close> are representable as floats, \<open>x\<close>
  is that exact product, and the resolved timeout is the ceiling of \<open>t * m\<close>.
\<close>

theorem create_spec_from_dict_timeout:
  assumes "mk d = Inr ts"
    and "py_mul (timeout ts) (timeout_multiplier (testing p)) = Inr product"
    and "value_of product = Some x"
  shows "create_spec_from_dict mk d p = Inr (ts\<lparr>timeout := PyInt \<lceil>x\<rceil>\<rparr>)
         \<and> x \<le> of_int \<lceil>x\<rceil> \<and> of_int \<lceil>x\<rceil> < x + 1 \<and> \<lfloor>x\<rfloor> \<le> \<lceil>x\<rceil>
         \<and> (\<forall>t m. value_of (timeout ts) = Some t
                \<and> value_of (timeout_multiplier (testing p)) = Some m
                \<and> representable t \<and> representable m \<and> representable (t * m)
              \<longrightarrow> x = t * m)"
proof -
  have "of_int \<lceil>x\<rceil> - 1 < x \<and> x \<le> of_int \<lceil>x\<rceil>"
    by (rule ceiling_correct)
  moreover have "x = t * m"
    if "value_of (timeout ts) = Some t \<and> value_of (timeout_multiplier (testing p)) = Some m
        \<and> representable t \<and> representable m \<and> representable (t * m)" for t m
    using py_mul_exact [of "timeout ts" t "timeout_multiplier (testing p)" m] that assms(2,3)
    by auto
  ultimately show ?thesis
    using assms math_ceil_value [OF assms(3)] by (simp add: create_spec_from_dict_def)
qed

text \<open>The numbers 5, 1.5 and 7.5 are floats.\<close>

lemma representableI:
  "x = of_int n * pow2 e \<Longrightarrow> \<bar>n\<bar> < 2 ^ 53 \<Longrightarrow> - 1074 \<le> e \<Longrightarrow> e \<le> 971 \<Longrightarrow> representable x"
  by (auto simp: representable_def)

lemma representable_examples:
  "representable 5" "representable (3 / 2)" "representable (15 / 2)"
proof -
  show "representable 5"
    by (rule representableI [of _ 5 0]) (simp_all add: pow2_def)
  show "representable (3 / 2)"
    by (rule representableI [of _ 3 "- 1"]) (simp_all add: pow2_def)
  show "representable (15 / 2)"
    by (rule representableI [of _ 15 "- 1"]) (simp_all add: pow2_def)
qed

text \<open>Declared timeout 5 and multiplier 1.5 resolve to 8, not to 7.\<close>

theorem create_spec_from_dict_timeout_witness:
  "create_spec_from_dict (\<lambda>d. Inr example_spec) [(''timeout'', VInt 5)] example_platform
     = Inr (example_spec\<lparr>timeout := PyInt 8\<rparr>)
   \<and> create_spec_from_dict (\<lambda>d. Inr example_spec) [(''timeout'', VInt 5)] example_platform
     \<noteq> Inr (example_spec\<lparr>timeout := PyInt 7\<rparr>)"
proof -
  have five: "timeout example_spec = PyInt 5"
    and mult: "timeout_multiplier (testing example_platform) = PyFloat (Fin (3 / 2))"
    by (simp_all add: example_spec_def example_platform_def)
  have "\<exists>product. py_mul (PyInt 5) (PyFloat (Fin (3 / 2))) = Inr product
          \<and> value_of product = Some (5 * (3 / 2))"
    by (rule py_mul_exact) (simp_all add: representable_examples)
  then obtain product
    where prod: "py_mul (timeout example_spec) (timeout_multiplier (testing example_platform))
                   = Inr product"
      and val: "value_of product = Some (15 / 2)"
    unfolding five mult by auto
  have c: "\<lceil>15 / 2 :: rat\<rceil> = 8" by (rule ceiling_unique) simp_all
  have ne: "example_spec\<lparr>timeout := PyInt 8\<rparr> \<noteq> example_spec\<lparr>timeout := PyInt 7\<rparr>"
    by (simp add: example_spec_def)
  show ?thesis
    using create_spec_from_dict_timeout
      [of "\<lambda>d. Inr example_spec" "[(''timeout'', VInt 5)]" example_spec example_platform
          product "15 / 2", OF refl prod val]
    by (simp add: c ne)
qed

text \<open>With an integer multiplier the product is the exact integer product.\<close>

lemma integer_product_exact:
  "mk d = Inr ts \<Longrightarrow> timeout ts = PyInt a \<Longrightarrow> timeout_multiplier (testing p) = PyInt b \<Longrightarrow>
   create_spec_from_dict mk d p = Inr (ts\<lparr>timeout := PyInt (a * b)\<rparr>)"
  by (simp add: create_spec_from_dict_def)

text \<open>
  A product that is not representable is rounded, and the ceiling is taken of the rounded
  product. The float of \<^verbatim>\<open>1.1\<close> is slightly above 1.1.
\<close>

lemma float_of_1_1: "round_double (11 / 10) = float_1_1"
  by code_simp

lemma float_product_100:
  "py_mul (PyInt 100) (PyFloat float_1_1)
     = Inr (PyFloat (Fin (7740561859543041 / 70368744177664)))"
  by code_simp

lemma float_product_60: "py_mul (PyInt 60) (PyFloat float_1_1) = Inr (PyFloat (Fin 66))"
  by code_simp

text \<open>
  Claim C7, as stated, fails. With the multiplier \<^verbatim>\<open>1.1\<close> the declared timeout 100
  resolves to 111, while 100 times 1.1 is 110: the float product is slightly above 110.
  The declared timeout 60 resolves to 66, while 60 times the value of the float of
  \<^verbatim>\<open>1.1\<close>, taken exactly, is above 66 and has ceiling 67: the float product rounds to
  the float 66.
\<close>

theorem rounded_product_timeout:
  "round_double (11 / 10) = float_1_1
   \<and> create_spec_from_dict (\<lambda>d. Inr (example_spec\<lparr>timeout := PyInt 100\<rparr>)) []
        (example_platform\<lparr>testing := \<lparr>timeout_multiplier = PyFloat float_1_1\<rparr>\<rparr>)
       = Inr (example_spec\<lparr>timeout := PyInt 111\<rparr>)
   \<and> \<lceil>100 * (11 / 10 :: rat)\<rceil> = 110
   \<and> create_spec_from_dict (\<lambda>d. Inr (example_spec\<lparr>timeout := PyInt 60\<rparr>)) []
        (example_platform\<lparr>testing := \<lparr>timeout_multiplier = PyFloat float_1_1\<rparr>\<rparr>)
       = Inr (example_spec\<lparr>timeout := PyInt 66\<rparr>)
   \<and> \<lceil>60 * (2476979795053773 / 2251799813685248 :: rat)\<rceil> = 67"
proof -
  have c: "\<lceil>7740561859543041 / 70368744177664 :: rat\<rceil> = 111"
    by (rule ceiling_unique) simp_all
  have a: "create_spec_from_dict (\<lambda>d. Inr (example_spec\<lparr>timeout := PyInt 100\<rparr>)) []
     (example_platform\<lparr>testing := \<lparr>timeout_multiplier = PyFloat float_1_1\<rparr>\<rparr>)
     = Inr (example_spec\<lparr>timeout := PyInt 111\<rparr>)"
    by (simp add: create_spec_from_dict_def float_product_100 c del: py_mul.simps)
  have b: "create_spec_from_dict (\<lambda>d. Inr (example_spec\<lparr>timeout := PyInt 60\<rparr>)) []
     (example_platform\<lparr>testing := \<lparr>timeout_multiplier = PyFloat float_1_1\<rparr>\<rparr>)
     = Inr (example_spec\<lparr>timeout := PyInt 66\<rparr>)"
    by (simp add: create_spec_from_dict_def float_product_60 del: py_mul.simps)
  have d: "\<lceil>60 * (2476979795053773 / 2251799813685248 :: rat)\<rceil> = 67"
    by (rule ceiling_unique) simp_all
  have e: "\<lceil>100 * (11 / 10 :: rat)\<rceil> = 110" by simp
  from float_of_1_1 a e b d show ?thesis by (intro conjI)
qed

section \<open>Resolving a scenario\<close>

text \<open>The relativisation raises nothing but \<^verbatim>\<open>ValueError\<close>.\<close>

lemma relative_to_error: "relative_to a b = Inl e \<Longrightarrow> e = ValueError"
  by (auto simp: relative_to_def split: if_splits)

lemma yaml_prepare_absent:
  "map_of (tests self) scenario = None \<Longrightarrow>
   yaml_prepare_spec_dict h self p scenario =
     (Inl (TwisterConfigurationException (no_specification_msg scenario (spec_file_path self))),
      h)"
  by (simp add: yaml_prepare_spec_dict_def)

lemma regular_prepare_absent:
  "map_of (tests self) scenario = None \<Longrightarrow>
   regular_prepare_spec_dict h self p scenario =
     (Inl (TwisterConfigurationException (no_specification_msg scenario (spec_file_path self))),
      h)"
  by (simp add: regular_prepare_spec_dict_def)

text \<open>
  For a declared scenario, \<^verbatim>\<open>prepare_spec_dict\<close> is a sequence of assignments into one
  dictionary object.
\<close>

lemma setitem_twice: "setitem (h(d := c)) d key v = h(d := AList.update key v c)"
  by (simp add: setitem_def)

lemma setitem_first: "setitem h d key v = h(d := AList.update key v (h d))"
  by (simp add: setitem_def)

lemma yaml_prepare_as_updates:
  assumes "map_of (tests self) scenario = Some r"
  shows "yaml_prepare_spec_dict h self p scenario =
     (Inr r,
      h(r := AList.updates
             [''name'', ''original_name'', ''platform'', ''source_dir'', ''rel_to_base_path'']
             [VStr (scenario @ ''['' @ identifier p @ '']''), VStr scenario,
              VStr (identifier p), VPath (test_directory_path self),
              case relative_to (test_directory_path self) (zephyr_base self) of
                Inr rel \<Rightarrow> VPath rel | Inl e \<Rightarrow> VStr ''out_of_tree''] (h r)))"
proof (cases "relative_to (test_directory_path self) (zephyr_base self)")
  case (Inl e)
  then have "e = ValueError" by (rule relative_to_error)
  with Inl assms show ?thesis
    by (simp add: yaml_prepare_spec_dict_def Let_def setitem_def)
next
  case (Inr rel)
  with assms show ?thesis
    by (simp add: yaml_prepare_spec_dict_def Let_def setitem_def)
qed

lemma regular_prepare_as_updates:
  assumes "map_of (tests self) scenario = Some r"
  shows "regular_prepare_spec_dict h self p scenario =
     (case relative_to (test_directory_path self) (rootpath self) of
        Inl e \<Rightarrow>
          (Inl e,
           h(r := AList.updates
                [''name'', ''original_name'', ''source_dir'', ''platform'', ''build_name'']
                [VStr (item_name (item self)), VStr (item_originalname (item self)),
                 VPath (test_directory_path self), VStr (identifier p), VStr scenario] (h r)))
      | Inr rel \<Rightarrow>
          (Inr r,
           h(r := AList.updates
                [''name'', ''original_name'', ''source_dir'', ''platform'', ''build_name'',
                 ''rel_to_base_path'']
                [VStr (item_name (item self)), VStr (item_originalname (item self)),
                 VPath (test_directory_path self), VStr (identifier p), VStr scenario,
                 VPath rel] (h r))))"
  using assms by (simp add: regular_prepare_spec_dict_def Let_def setitem_def split: sum.split)

lemma yaml_prepare_fst:
  "fst (yaml_prepare_spec_dict h self p scenario) =
     (case map_of (tests self) scenario of
        None \<Rightarrow> Inl (TwisterConfigurationException
                       (no_specification_msg scenario (spec_file_path self)))
      | Some r \<Rightarrow> Inr r)"
  by (simp add: yaml_prepare_absent yaml_prepare_as_updates split: option.split)

lemma regular_prepare_fst:
  "fst (regular_prepare_spec_dict h self p scenario) =
     (case map_of (tests self) scenario of
        None \<Rightarrow> Inl (TwisterConfigurationException
                       (no_specification_msg scenario (spec_file_path self)))
      | Some r \<Rightarrow>
          (case relative_to (test_directory_path self) (rootpath self) of
             Inl e \<Rightarrow> Inl ValueError | Inr rel \<Rightarrow> Inr r))"
  by (auto simp: regular_prepare_absent regular_prepare_as_updates
      split: option.split sum.split dest: relative_to_error)

text \<open>
  Claim C8. In both processors, \<^verbatim>\<open>prepare_spec_dict\<close> raises the configuration error
  exactly when the scenario name is absent from the mapping, and the message then names
  the scenario and the specification file; for a present scenario no configuration error
  is raised. \<^verbatim>\<open>process\<close> hands the error on to its caller: it does not return a
  specification and does not return \<^verbatim>\<open>None\<close>.
\<close>

theorem missing_scenario_raises:
  "(fst (yaml_prepare_spec_dict h ys p scenario) = Inl (TwisterConfigurationException m)
      \<longleftrightarrow> map_of (tests ys) scenario = None
          \<and> m = ''There is no specification for '' @ scenario @ '' in file ''
                  @ path_str (spec_file_path ys))
   \<and> (fst (regular_prepare_spec_dict h rs p scenario) = Inl (TwisterConfigurationException m)
      \<longleftrightarrow> map_of (tests rs) scenario = None
          \<and> m = ''There is no specification for '' @ scenario @ '' in file ''
                  @ path_str (spec_file_path rs))
   \<and> (map_of (tests ys) scenario = None \<longrightarrow>
        fst (yaml_process mk h ys p scenario) =
          Inl (TwisterConfigurationException
                 (''There is no specification for '' @ scenario @ '' in file ''
                    @ path_str (spec_file_path ys))))
   \<and> (map_of (tests rs) scenario = None \<longrightarrow>
        fst (regular_process mk add_markers h rs p scenario) =
          Inl (TwisterConfigurationException
                 (''There is no specification for '' @ scenario @ '' in file ''
                    @ path_str (spec_file_path rs))))"
proof -
  have y: "fst (yaml_prepare_spec_dict h ys p scenario) = Inl (TwisterConfigurationException m)
      \<longleftrightarrow> map_of (tests ys) scenario = None
          \<and> m = no_specification_msg scenario (spec_file_path ys)"
    unfolding yaml_prepare_fst by (auto split: option.split)
  have r: "fst (regular_prepare_spec_dict h rs p scenario) = Inl (TwisterConfigurationException m)
      \<longleftrightarrow> map_of (tests rs) scenario = None
          \<and> m = no_specification_msg scenario (spec_file_path rs)"
    unfolding regular_prepare_fst by (auto split: option.split sum.split)
  have yp: "map_of (tests ys) scenario = None \<longrightarrow>
        fst (yaml_process mk h ys p scenario) =
          Inl (TwisterConfigurationException (no_specification_msg scenario (spec_file_path ys)))"
    by (simp add: yaml_process_def yaml_prepare_absent)
  have rp: "map_of (tests rs) scenario = None \<longrightarrow>
        fst (regular_process mk add_markers h rs p scenario) =
          Inl (TwisterConfigurationException (no_specification_msg scenario (spec_file_path rs)))"
    by (simp add: regular_process_def regular_prepare_absent)
  show ?thesis
    using y r yp rp unfolding no_specification_msg_def by blast
qed

text \<open>
  The scenario \<^verbatim>\<open>sample.none\<close> is not declared and raises, with its name and the file in
  the message; the declared scenario \<^verbatim>\<open>sample.basic\<close> does not.
\<close>

theorem missing_scenario_raises_witness:
  "fst (yaml_prepare_spec_dict example_store example_yaml_processor example_platform
          ''sample.none'')
     = Inl (TwisterConfigurationException
         ''There is no specification for sample.none in file /ext/tests/testcase.yaml'')
   \<and> fst (regular_prepare_spec_dict example_store example_regular_processor example_platform
            ''sample.none'')
     = Inl (TwisterConfigurationException
         ''There is no specification for sample.none in file /ext/tests/testspec.yaml'')
   \<and> fst (yaml_process (\<lambda>d. Inr example_spec) example_store example_yaml_processor
            example_platform ''sample.none'')
     = Inl (TwisterConfigurationException
         ''There is no specification for sample.none in file /ext/tests/testcase.yaml'')
   \<and> fst (regular_process (\<lambda>d. Inr example_spec) (\<lambda>i ts. i) example_store
            example_regular_processor example_platform ''sample.none'')
     = Inl (TwisterConfigurationException
         ''There is no specification for sample.none in file /ext/tests/testspec.yaml'')
   \<and> fst (yaml_prepare_spec_dict example_store example_yaml_processor example_platform
            ''sample.basic'')
     \<noteq> Inl (TwisterConfigurationException
         ''There is no specification for sample.basic in file /ext/tests/testcase.yaml'')
   \<and> fst (regular_prepare_spec_dict example_store example_regular_processor example_platform
            ''sample.basic'')
     \<noteq> Inl (TwisterConfigurationException
         ''There is no specification for sample.basic in file /ext/tests/testspec.yaml'')"
  using missing_scenario_raises [of example_store example_yaml_processor example_platform
      "''sample.none''"
      "''There is no specification for sample.none in file /ext/tests/testcase.yaml''"
      example_regular_processor "\<lambda>d. Inr example_spec" "\<lambda>i ts. i"]
    missing_scenario_raises [of example_store example_yaml_processor example_platform
      "''sample.none''"
      "''There is no specification for sample.none in file /ext/tests/testspec.yaml''"
      example_regular_processor "\<lambda>d. Inr example_spec" "\<lambda>i ts. i"]
    missing_scenario_raises [of example_store example_yaml_processor example_platform
      "''sample.basic''"
      "''There is no specification for sample.basic in file /ext/tests/testcase.yaml''"
      example_regular_processor "\<lambda>d. Inr example_spec" "\<lambda>i ts. i"]
    missing_scenario_raises [of example_store example_yaml_processor example_platform
      "''sample.basic''"
      "''There is no specification for sample.basic in file /ext/tests/testspec.yaml''"
      example_regular_processor "\<lambda>d. Inr example_spec" "\<lambda>i ts. i"]
  by (simp add: example_yaml_processor_def example_regular_processor_def path_str_def)

section \<open>What resolving leaves behind\<close>

text \<open>
  Assignments to keys of a dictionary: an assignment to a key that is present commutes
  with assignments to other keys, so assigning a sequence of distinct keys twice leaves
  what assigning it once, the second time, leaves.
\<close>

lemma update_swap_present:
  "k \<in> fst ` set al \<Longrightarrow> k \<noteq> k' \<Longrightarrow>
   AList.update k w (AList.update k' v' al) = AList.update k' v' (AList.update k w al)"
  by (induction al) auto

lemma update_updates_swap:
  "k \<in> fst ` set al \<Longrightarrow> k \<notin> set ks \<Longrightarrow>
   AList.update k w (AList.updates ks vs al) = AList.updates ks vs (AList.update k w al)"
proof (induction ks arbitrary: vs al)
  case Nil
  then show ?case by simp
next
  case (Cons k' ks)
  show ?case
  proof (cases vs)
    case Nil
    then show ?thesis by simp
  next
    case (Cons v' vs')
    have in': "k \<in> fst ` set (AList.update k' v' al)"
      using Cons.prems(1) by (simp add: dom_update)
    have "AList.update k w (AList.updates ks vs' (AList.update k' v' al))
            = AList.updates ks vs' (AList.update k w (AList.update k' v' al))"
      using Cons.IH [OF in'] Cons.prems(2) by simp
    also have "AList.update k w (AList.update k' v' al)
            = AList.update k' v' (AList.update k w al)"
      using update_swap_present [of k al k' w v'] Cons.prems by auto
    finally show ?thesis using Cons by simp
  qed
qed

lemma updates_absorb:
  "length vs = length ks \<Longrightarrow> length ws = length ks \<Longrightarrow> distinct ks \<Longrightarrow>
   AList.updates ks ws (AList.updates ks vs al) = AList.updates ks ws al"
proof (induction ks arbitrary: vs ws al)
  case Nil
  then show ?case by simp
next
  case (Cons k ks)
  from Cons.prems obtain v vs' w ws' where vs: "vs = v # vs'" and ws: "ws = w # ws'"
    by (cases vs; cases ws) auto
  have len: "length vs' = length ks" "length ws' = length ks" and d: "distinct ks" and nk: "k \<notin> set ks"
    using Cons.prems vs ws by auto
  have "AList.update k w (AList.updates ks vs' (AList.update k v al))
          = AList.updates ks vs' (AList.update k w (AList.update k v al))"
    by (rule update_updates_swap) (simp_all add: dom_update nk)
  then have "AList.updates ks ws' (AList.update k w (AList.updates ks vs' (AList.update k v al)))
          = AList.updates ks ws' (AList.updates ks vs' (AList.update k w al))"
    by simp
  also have "\<dots> = AList.updates ks ws' (AList.update k w al)"
    by (rule Cons.IH [OF len d])
  finally show ?case by (simp add: vs ws)
qed

text \<open>Resolving again, for another platform, overwrites what the first resolution wrote.\<close>

lemma yaml_prepare_twice:
  "yaml_prepare_spec_dict (snd (yaml_prepare_spec_dict h self p1 scenario)) self p2 scenario
     = yaml_prepare_spec_dict h self p2 scenario"
proof (cases "map_of (tests self) scenario")
  case None
  then show ?thesis by (simp add: yaml_prepare_absent)
next
  case (Some r)
  let ?ks = "[''name'', ''original_name'', ''platform'', ''source_dir'', ''rel_to_base_path'']"
  let ?rel = "case relative_to (test_directory_path self) (zephyr_base self) of
                Inr rel \<Rightarrow> VPath rel | Inl e \<Rightarrow> VStr ''out_of_tree''"
  let ?vs = "\<lambda>p. [VStr (scenario @ ''['' @ identifier p @ '']''), VStr scenario,
              VStr (identifier p), VPath (test_directory_path self), ?rel]"
  have absorb: "AList.updates ?ks (?vs p2) (AList.updates ?ks (?vs p1) (h r))
                  = AList.updates ?ks (?vs p2) (h r)"
    by (rule updates_absorb) simp_all
  show ?thesis
    unfolding yaml_prepare_as_updates [OF Some] snd_conv fun_upd_same fun_upd_upd absorb ..
qed

lemma regular_prepare_twice:
  "regular_prepare_spec_dict (snd (regular_prepare_spec_dict h self p1 scenario)) self p2 scenario
     = regular_prepare_spec_dict h self p2 scenario"
proof (cases "map_of (tests self) scenario")
  case None
  then show ?thesis by (simp add: regular_prepare_absent)
next
  case (Some r)
  show ?thesis
  proof (cases "relative_to (test_directory_path self) (rootpath self)")
    case (Inl e)
    let ?ks = "[''name'', ''original_name'', ''source_dir'', ''platform'', ''build_name'']"
    let ?vs = "\<lambda>p. [VStr (item_name (item self)), VStr (item_originalname (item self)),
                 VPath (test_directory_path self), VStr (identifier p), VStr scenario]"
    have absorb: "AList.updates ?ks (?vs p2) (AList.updates ?ks (?vs p1) (h r))
                  = AList.updates ?ks (?vs p2) (h r)"
      by (rule updates_absorb) simp_all
    show ?thesis
      unfolding regular_prepare_as_updates [OF Some] Inl sum.case snd_conv fun_upd_same
        fun_upd_upd absorb ..
  next
    case (Inr rel)
    let ?ks = "[''name'', ''original_name'', ''source_dir'', ''platform'', ''build_name'',
                 ''rel_to_base_path'']"
    let ?vs = "\<lambda>p. [VStr (item_name (item self)), VStr (item_originalname (item self)),
                 VPath (test_directory_path self), VStr (identifier p), VStr scenario, VPath rel]"
    have absorb: "AList.updates ?ks (?vs p2) (AList.updates ?ks (?vs p1) (h r))
                  = AList.updates ?ks (?vs p2) (h r)"
      by (rule updates_absorb) simp_all
    show ?thesis
      unfolding regular_prepare_as_updates [OF Some] Inr sum.case snd_conv fun_upd_same
        fun_upd_upd absorb ..
  qed
qed

text \<open>What a resolution of a declared scenario changes, and what it leaves.\<close>

lemma yaml_prepare_present_frame:
  assumes "map_of (tests self) scenario = Some r"
  shows "fst (yaml_prepare_spec_dict h self p scenario) = Inr r
     \<and> (\<exists>d'. snd (yaml_prepare_spec_dict h self p scenario) = h(r := d')
          \<and> (\<forall>k. k \<notin> {''name'', ''original_name'', ''platform'', ''source_dir'',
                        ''rel_to_base_path''} \<longrightarrow> map_of d' k = map_of (h r) k)
          \<and> map_of d' ''platform'' = Some (VStr (identifier p)))"
  unfolding yaml_prepare_as_updates [OF assms] fst_conv snd_conv
  by (intro conjI exI, rule refl, rule refl) (simp_all add: update_conv')

lemma regular_prepare_present_frame:
  assumes "map_of (tests self) scenario = Some r"
  shows "(fst (regular_prepare_spec_dict h self p scenario) = Inr r
          \<or> fst (regular_prepare_spec_dict h self p scenario) = Inl ValueError)
     \<and> (\<exists>d'. snd (regular_prepare_spec_dict h self p scenario) = h(r := d')
          \<and> (\<forall>k. k \<notin> {''name'', ''original_name'', ''source_dir'', ''platform'',
                        ''build_name'', ''rel_to_base_path''} \<longrightarrow> map_of d' k = map_of (h r) k)
          \<and> map_of d' ''platform'' = Some (VStr (identifier p)))"
proof (cases "relative_to (test_directory_path self) (rootpath self)")
  case (Inl e)
  then have e: "e = ValueError" by (rule relative_to_error)
  show ?thesis
    unfolding regular_prepare_as_updates [OF assms] Inl e sum.case fst_conv snd_conv
    by (intro conjI exI disjI2, rule refl, rule refl) (simp_all add: update_conv')
next
  case (Inr rel)
  show ?thesis
    unfolding regular_prepare_as_updates [OF assms] Inr sum.case fst_conv snd_conv
    by (intro conjI exI disjI1, rule refl, rule refl) (simp_all add: update_conv')
qed

lemma yaml_process_store:
  "snd (snd (yaml_process mk h self p scenario)) = snd (yaml_prepare_spec_dict h self p scenario)"
  by (simp add: yaml_process_def split: prod.split sum.split)

lemma regular_process_store:
  "fst (snd (snd (regular_process mk add_markers h self p scenario)))
     = snd (regular_prepare_spec_dict h self p scenario)
   \<and> tests (snd (snd (snd (regular_process mk add_markers h self p scenario)))) = tests self
   \<and> raw_spec (snd (snd (snd (regular_process mk add_markers h self p scenario))))
       = raw_spec self"
  by (simp add: regular_process_def Let_def split: prod.split sum.split)

text \<open>A mapping reads, under each name, the content of the object bound to the name.\<close>

lemma map_of_contents: "map_of (contents h m) n = map_option h (map_of m n)"
  by (induction m) (auto simp: contents_def)

text \<open>
  \<^verbatim>\<open>extract_tests\<close> binds every scenario name to the object the loaded document binds it
  to: \<^verbatim>\<open>self.tests\<close> and \<^verbatim>\<open>self.raw_spec['tests']\<close> hold the same dictionary objects.
\<close>

lemma extract_loop_objects:
  "extract_loop common ts acc h = Inr (ts', h') \<Longrightarrow>
   ts' = fold (\<lambda>(test_name, d). AList.update test_name d) ts acc"
  by (induction common ts acc h rule: extract_loop.induct) (auto split: sum.splits)

lemma fold_update_fresh:
  "distinct (map fst (acc @ ts)) \<Longrightarrow>
   fold (\<lambda>(test_name, d). AList.update test_name d) ts acc = acc @ ts"
proof (induction ts arbitrary: acc)
  case Nil
  then show ?case by simp
next
  case (Cons x ts)
  obtain n d where x: "x = (n, d)" by (cases x)
  have fresh: "n \<notin> fst ` set acc" using Cons.prems x by auto
  have upd: "AList.update n d acc = acc @ [(n, d)]"
    using fresh by (induction acc) auto
  have "distinct (map fst ((acc @ [(n, d)]) @ ts))" using Cons.prems x by simp
  from Cons.IH [OF this] show ?case by (simp add: x upd)
qed

lemma extract_tests_shares_objects:
  assumes "extract_tests validate h raw = Inr (ts, h')"
    and "distinct (map fst (raw_tests raw))"
  shows "ts = raw_tests raw"
proof -
  from assms(1) have "extract_loop (case raw_common raw of None \<Rightarrow> [] | Some c \<Rightarrow> c)
            (raw_tests raw) [] h = Inr (ts, h')"
    by (simp add: extract_tests_def split: option.splits)
  then have "ts = fold (\<lambda>(test_name, d). AList.update test_name d) (raw_tests raw) []"
    by (rule extract_loop_objects)
  then show ?thesis using fold_update_fresh [of "[]" "raw_tests raw"] assms(2) by simp
qed

text \<open>
  Claim C4, as the code has it. Resolving an undeclared scenario changes no object.
  Resolving a declared scenario returns the dictionary object that \<^verbatim>\<open>self.tests\<close> holds
  for it (in the regular processor, unless the relativisation raises) and assigns the
  context keys (\<^verbatim>\<open>name\<close>, \<^verbatim>\<open>original_name\<close>, \<^verbatim>\<open>platform\<close>, \<^verbatim>\<open>source_dir\<close>,
  \<^verbatim>\<open>rel_to_base_path\<close>, and in the regular processor \<^verbatim>\<open>build_name\<close>) in that object: its
  content afterwards has the platform of the call in it, its other keys are as before,
  and no other object changes. The attributes of the processor keep the objects they
  had, so the new content is what \<^verbatim>\<open>self.tests\<close> and \<^verbatim>\<open>self.raw_spec\<close> read under every
  name bound to that object. Every call assigns all of those keys, so resolving the same
  scenario for a second platform gives the result and the contents that resolving it on
  the untouched objects gives. \<^verbatim>\<open>process\<close> leaves the dictionaries as
  \<^verbatim>\<open>prepare_spec_dict\<close> left them and keeps \<^verbatim>\<open>tests\<close> and \<^verbatim>\<open>raw_spec\<close> of the processor.
\<close>

theorem prepare_spec_dict_writes_stored_dictionary:
  "(map_of (tests ys) scenario = None \<longrightarrow>
      snd (yaml_prepare_spec_dict h ys p scenario) = h)
   \<and> (map_of (tests rs) scenario = None \<longrightarrow>
        snd (regular_prepare_spec_dict h rs p scenario) = h)
   \<and> (\<forall>d. map_of (tests ys) scenario = Some d \<longrightarrow>
        fst (yaml_prepare_spec_dict h ys p scenario) = Inr d
        \<and> (\<exists>c. snd (yaml_prepare_spec_dict h ys p scenario) = h(d := c)
             \<and> (\<forall>k. k \<notin> {''name'', ''original_name'', ''platform'', ''source_dir'',
                           ''rel_to_base_path''} \<longrightarrow> map_of c k = map_of (h d) k)
             \<and> map_of c ''platform'' = Some (VStr (identifier p))))
   \<and> (\<forall>d. map_of (tests rs) scenario = Some d \<longrightarrow>
        (fst (regular_prepare_spec_dict h rs p scenario) = Inr d
         \<or> fst (regular_prepare_spec_dict h rs p scenario) = Inl ValueError)
        \<and> (\<exists>c. snd (regular_prepare_spec_dict h rs p scenario) = h(d := c)
             \<and> (\<forall>k. k \<notin> {''name'', ''original_name'', ''source_dir'', ''platform'',
                           ''build_name'', ''rel_to_base_path''} \<longrightarrow> map_of c k = map_of (h d) k)
             \<and> map_of c ''platform'' = Some (VStr (identifier p))))
   \<and> map_of (contents (snd (yaml_prepare_spec_dict h ys p scenario)) (tests ys)) n
       = map_option (snd (yaml_prepare_spec_dict h ys p scenario)) (map_of (tests ys) n)
   \<and> map_of (contents (snd (yaml_prepare_spec_dict h ys p scenario))
               (raw_tests (raw_spec ys))) n
       = map_option (snd (yaml_prepare_spec_dict h ys p scenario))
           (map_of (raw_tests (raw_spec ys)) n)
   \<and> map_of (contents (snd (regular_prepare_spec_dict h rs p scenario)) (tests rs)) n
       = map_option (snd (regular_prepare_spec_dict h rs p scenario)) (map_of (tests rs) n)
   \<and> map_of (contents (snd (regular_prepare_spec_dict h rs p scenario))
               (raw_tests (raw_spec rs))) n
       = map_option (snd (regular_prepare_spec_dict h rs p scenario))
           (map_of (raw_tests (raw_spec rs)) n)
   \<and> yaml_prepare_spec_dict (snd (yaml_prepare_spec_dict h ys p scenario)) ys p2 scenario
       = yaml_prepare_spec_dict h ys p2 scenario
   \<and> regular_prepare_spec_dict (snd (regular_prepare_spec_dict h rs p scenario)) rs p2 scenario
       = regular_prepare_spec_dict h rs p2 scenario
   \<and> snd (snd (yaml_process mk h ys p scenario)) = snd (yaml_prepare_spec_dict h ys p scenario)
   \<and> fst (snd (snd (regular_process mk add_markers h rs p scenario)))
       = snd (regular_prepare_spec_dict h rs p scenario)
   \<and> tests (snd (snd (snd (regular_process mk add_markers h rs p scenario)))) = tests rs
   \<and> raw_spec (snd (snd (snd (regular_process mk add_markers h rs p scenario)))) = raw_spec rs"
  using yaml_prepare_absent [of ys scenario h p] regular_prepare_absent [of rs scenario h p]
    yaml_prepare_present_frame [of ys scenario _ h p]
    regular_prepare_present_frame [of rs scenario _ h p]
    yaml_prepare_twice [of h ys p scenario p2] regular_prepare_twice [of h rs p scenario p2]
    yaml_process_store [of mk h ys p scenario]
    regular_process_store [of mk add_markers h rs p scenario]
  by (intro conjI allI impI map_of_contents) simp_all

text \<open>
  At the two example processors: the undeclared scenario \<^verbatim>\<open>sample.none\<close> changes
  nothing; the declared scenario \<^verbatim>\<open>sample.basic\<close> gets the context keys, which the
  loaded document reads as well; and a second resolution for the platform \<^verbatim>\<open>qemu_x86\<close>
  gives what a first one would.
\<close>

theorem prepare_spec_dict_writes_stored_dictionary_witness:
  "snd (yaml_prepare_spec_dict example_store example_yaml_processor example_platform
          ''sample.none'') = example_store
   \<and> snd (regular_prepare_spec_dict example_store example_regular_processor example_platform
            ''sample.none'') = example_store
   \<and> fst (yaml_prepare_spec_dict example_store example_yaml_processor example_platform
            ''sample.basic'') = Inr 0
   \<and> map_of (contents (snd (yaml_prepare_spec_dict example_store example_yaml_processor
                               example_platform ''sample.basic''))
               (raw_tests (raw_spec example_yaml_processor))) ''sample.basic''
     = Some [(''timeout'', VInt 5), (''name'', VStr ''sample.basic[native]''),
             (''original_name'', VStr ''sample.basic''), (''platform'', VStr ''native''),
             (''source_dir'', VPath [''/'', ''ext'', ''tests'']),
             (''rel_to_base_path'', VStr ''out_of_tree'')]
   \<and> yaml_prepare_spec_dict
        (snd (yaml_prepare_spec_dict example_store example_yaml_processor example_platform
               ''sample.basic''))
        example_yaml_processor (example_platform\<lparr>identifier := ''qemu_x86''\<rparr>) ''sample.basic''
     = yaml_prepare_spec_dict example_store example_yaml_processor
        (example_platform\<lparr>identifier := ''qemu_x86''\<rparr>) ''sample.basic''
   \<and> regular_prepare_spec_dict
        (snd (regular_prepare_spec_dict example_store example_regular_processor
               example_platform ''sample.basic''))
        example_regular_processor (example_platform\<lparr>identifier := ''qemu_x86''\<rparr>)
        ''sample.basic''
     = regular_prepare_spec_dict example_store example_regular_processor
        (example_platform\<lparr>identifier := ''qemu_x86''\<rparr>) ''sample.basic''"
proof -
  have absent: "map_of (tests example_yaml_processor) ''sample.none'' = None"
    "map_of (tests example_regular_processor) ''sample.none'' = None"
    and present: "map_of (tests example_yaml_processor) ''sample.basic'' = Some 0"
    and raw: "map_of (raw_tests (raw_spec example_yaml_processor)) ''sample.basic'' = Some 0"
    by (simp_all add: example_yaml_processor_def example_regular_processor_def)
  have stored: "snd (yaml_prepare_spec_dict example_store example_yaml_processor
                       example_platform ''sample.basic'') 0
     = [(''timeout'', VInt 5), (''name'', VStr ''sample.basic[native]''),
        (''original_name'', VStr ''sample.basic''), (''platform'', VStr ''native''),
        (''source_dir'', VPath [''/'', ''ext'', ''tests'']),
        (''rel_to_base_path'', VStr ''out_of_tree'')]"
    by (simp add: yaml_prepare_spec_dict_def example_yaml_processor_def example_platform_def
        example_store_def relative_to_def setitem_def Let_def)
  show ?thesis
    using absent present raw stored
      prepare_spec_dict_writes_stored_dictionary
        [of example_yaml_processor "''sample.none''" example_store example_platform
            example_regular_processor "''sample.basic''"
            "example_platform\<lparr>identifier := ''qemu_x86''\<rparr>" "\<lambda>d. Inr example_spec" "\<lambda>i ts. i"]
      prepare_spec_dict_writes_stored_dictionary
        [of example_yaml_processor "''sample.basic''" example_store example_platform
            example_regular_processor "''sample.basic''"
            "example_platform\<lparr>identifier := ''qemu_x86''\<rparr>" "\<lambda>d. Inr example_spec" "\<lambda>i ts. i"]
    by simp
qed

text \<open>
  Claim C4, as stated, fails: after resolving \<^verbatim>\<open>sample.basic\<close>, the mapping stored in the
  processor reads the keys of that resolution, in both processors, and so differs from
  what it read before the call; a second resolution starts from these entries.
\<close>

theorem prepare_spec_dict_changes_tests:
  "contents example_store (tests example_yaml_processor)
     = [(''sample.basic'', [(''timeout'', VInt 5)])]
   \<and> contents (snd (yaml_prepare_spec_dict example_store example_yaml_processor
                      example_platform ''sample.basic'')) (tests example_yaml_processor)
     = [(''sample.basic'',
         [(''timeout'', VInt 5), (''name'', VStr ''sample.basic[native]''),
          (''original_name'', VStr ''sample.basic''), (''platform'', VStr ''native''),
          (''source_dir'', VPath [''/'', ''ext'', ''tests'']),
          (''rel_to_base_path'', VStr ''out_of_tree'')])]
   \<and> contents (snd (yaml_prepare_spec_dict example_store example_yaml_processor
                      example_platform ''sample.basic'')) (tests example_yaml_processor)
     \<noteq> contents example_store (tests example_yaml_processor)
   \<and> contents (snd (regular_prepare_spec_dict example_store example_regular_processor
                      example_platform ''sample.basic'')) (tests example_regular_processor)
     = [(''sample.basic'',
         [(''timeout'', VInt 5), (''name'', VStr ''test_basic[native]''),
          (''original_name'', VStr ''test_basic''),
          (''source_dir'', VPath [''/'', ''ext'', ''tests'']),
          (''platform'', VStr ''native''), (''build_name'', VStr ''sample.basic'')])]
   \<and> contents (snd (regular_prepare_spec_dict example_store example_regular_processor
                      example_platform ''sample.basic'')) (tests example_regular_processor)
     \<noteq> contents example_store (tests example_regular_processor)"
  by (simp add: yaml_prepare_spec_dict_def regular_prepare_spec_dict_def contents_def
      example_yaml_processor_def example_regular_processor_def example_platform_def
      example_store_def relative_to_def setitem_def Let_def)

section \<open>A source directory outside the base directory\<close>

text \<open>
  In the YAML processor a failing relativisation is caught and the sentinel is stored.
\<close>

lemma yaml_relativization_caught:
  assumes "map_of (tests self) scenario = Some d"
    and "relative_to (test_directory_path self) (zephyr_base self) = Inl e"
  shows "fst (yaml_prepare_spec_dict h self p scenario) = Inr d
         \<and> map_of (snd (yaml_prepare_spec_dict h self p scenario) d) ''rel_to_base_path''
             = Some (VStr ''out_of_tree'')"
  unfolding yaml_prepare_as_updates [OF assms(1)] assms(2)
  by (simp add: update_conv')

text \<open>
  Claim C5 at the input where the code departs from it. Both example processors have
  their test directory \<^verbatim>\<open>/ext/tests\<close> outside their base directory, so the
  relativisation fails in both. The regular processor lets the \<^verbatim>\<open>ValueError\<close> reach
  the caller of \<^verbatim>\<open>prepare_spec_dict\<close> and of \<^verbatim>\<open>process\<close>; the YAML processor returns the
  dictionary with the sentinel \<^verbatim>\<open>out_of_tree\<close> in it.
\<close>

theorem regular_relativization_propagates:
  "relative_to (test_directory_path example_regular_processor)
     (rootpath example_regular_processor) = Inl ValueError
   \<and> fst (regular_prepare_spec_dict example_store example_regular_processor example_platform
            ''sample.basic'') = Inl ValueError
   \<and> fst (regular_process mk add_markers example_store example_regular_processor
            example_platform ''sample.basic'') = Inl ValueError
   \<and> relative_to (test_directory_path example_yaml_processor)
     (zephyr_base example_yaml_processor) = Inl ValueError
   \<and> fst (yaml_prepare_spec_dict example_store example_yaml_processor example_platform
            ''sample.basic'') = Inr 0
   \<and> snd (yaml_prepare_spec_dict example_store example_yaml_processor example_platform
            ''sample.basic'') 0
     = [(''timeout'', VInt 5), (''name'', VStr ''sample.basic[native]''),
        (''original_name'', VStr ''sample.basic''), (''platform'', VStr ''native''),
        (''source_dir'', VPath [''/'', ''ext'', ''tests'']),
        (''rel_to_base_path'', VStr ''out_of_tree'')]"
  by (simp add: yaml_prepare_spec_dict_def regular_prepare_spec_dict_def regular_process_def
      example_yaml_processor_def example_regular_processor_def example_platform_def
      example_store_def relative_to_def setitem_def Let_def)

section \<open>The merge on a document\<close>

text \<open>
  \<^verbatim>\<open>extract_tests\<close> on a document with a common filter and common tags: the scenario that
  has both keys gets the combined filter and its own tags followed by the common ones, the
  scenario that has neither inherits both as they are.
\<close>

lemma extract_tests_filter_example:
  "\<exists>h'. extract_tests (\<lambda>h raw. None)
       ((\<lambda>d. [])(0 := [(''filter'', VStr ''B''), (''tags'', VList [VStr ''y''])]))
       \<lparr>raw_common = Some [(''filter'', VStr ''A''), (''tags'', VList [VStr ''x''])],
        raw_tests = [(''s1'', 0), (''s2'', 1)]\<rparr>
     = Inr ([(''s1'', 0), (''s2'', 1)], h')
   \<and> h' 0 = [(''filter'', VStr ''(B) and (A)''), (''tags'', VList [VStr ''y'', VStr ''x''])]
   \<and> h' 1 = [(''filter'', VStr ''A''), (''tags'', VList [VStr ''x''])]"
  by (simp add: extract_tests_def merge_common_item_def join_filters_def)

end
